theory Spec2Isabelle
  imports Main "HOL-Library.Sublist" "HOL-Library.Log_Nat"
begin

section \<open>JavaScript values used by the services\<close>

subsection \<open>Strings\<close>

text \<open>
  A JavaScript string is modelled as a \<^typ>\<open>string\<close>, one \<^typ>\<open>char\<close> per code unit.
  All text the services produce themselves is ASCII. \<open>toLowerCase\<close> maps the ASCII capitals
  to their small letters and leaves every other code unit alone; case mappings of
  non-ASCII letters are outside the model.
\<close>

definition capitals :: string where
  "capitals = ''ABCDEFGHIJKLMNOPQRSTUVWXYZ''"

definition smalls :: string where
  "smalls = ''abcdefghijklmnopqrstuvwxyz''"

definition digitChars :: string where
  "digitChars = ''0123456789''"

definition toLowerChar :: "char \<Rightarrow> char" where
  "toLowerChar c = (case map_of (zip capitals smalls) c of None \<Rightarrow> c | Some l \<Rightarrow> l)"

definition toLowerCase :: "string \<Rightarrow> string" where
  "toLowerCase s = map toLowerChar s"

text \<open>\<open>s.includes(sub)\<close>: \<open>sub\<close> occurs in \<open>s\<close> as a contiguous block.\<close>

fun includesStr :: "string \<Rightarrow> string \<Rightarrow> bool" where
  "includesStr [] sub = (sub = [])"
| "includesStr (c # cs) sub = (prefix sub (c # cs) \<or> includesStr cs sub)"

text \<open>The character classes \<open>[a-z0-9]\<close> and, with the \<open>i\<close> flag, \<open>[a-z0-9]\<close> of either case.\<close>

definition isLowerAlnum :: "char \<Rightarrow> bool" where
  "isLowerAlnum c = (c \<in> set smalls \<or> c \<in> set digitChars)"

definition isAlnum :: "char \<Rightarrow> bool" where
  "isAlnum c = (isLowerAlnum c \<or> c \<in> set capitals)"

text \<open>\<open>s.replace(/[^a-z0-9]/g, r)\<close> and \<open>s.replace(/[^a-z0-9]/gi, r)\<close> for a one-character \<open>r\<close>.\<close>

definition replaceNonLowerAlnum :: "char \<Rightarrow> string \<Rightarrow> string" where
  "replaceNonLowerAlnum r s = map (\<lambda>c. if isLowerAlnum c then c else r) s"

definition replaceNonAlnum :: "char \<Rightarrow> string \<Rightarrow> string" where
  "replaceNonAlnum r s = map (\<lambda>c. if isAlnum c then c else r) s"

text \<open>
  \<open>s.trim()\<close> removes white space and line terminators from both ends. The ASCII ones are
  tab, line feed, vertical tab, form feed, carriage return and space.
\<close>

definition isSpace :: "char \<Rightarrow> bool" where
  "isSpace c = (c \<in> set [CHR 0x09, CHR 0x0A, CHR 0x0B, CHR 0x0C, CHR 0x0D, CHR '' ''])"

definition trim :: "string \<Rightarrow> string" where
  "trim s = rev (dropWhile isSpace (rev (dropWhile isSpace s)))"

text \<open>Decimal rendering of a non-negative integer, as a template literal does it.\<close>

function numberToString :: "nat \<Rightarrow> string" where
  "numberToString n =
     (if n < 10 then [digitChars ! n]
      else numberToString (n div 10) @ [digitChars ! (n mod 10)])"
  by pat_completeness auto
termination
  by (relation "measure id") auto

declare numberToString.simps [simp del]

subsection \<open>Numbers\<close>

text \<open>
  A JavaScript number is a binary64 floating-point value. A finite one is modelled by the
  rational it denotes. \<open>fl64\<close> rounds a rational to the nearest binary64 value, ties to
  even, for magnitudes in the normal range; a literal and the result of every arithmetic
  operation are rounded this way. \<open>NaN\<close>, the infinities and the sign of zero are outside
  the model.
\<close>

type_synonym number = rat

definition pow2 :: "int \<Rightarrow> rat" where
  "pow2 k = (if 0 \<le> k then 2 ^ nat k else 1 / 2 ^ nat (- k))"

text \<open>For \<open>x > 0\<close>, \<open>binade x\<close> is the \<open>k\<close> with \<open>2\<^sup>k \<le> x < 2\<^sup>k\<^sup>+\<^sup>1\<close>.\<close>

definition binade :: "rat \<Rightarrow> int" where
  "binade x =
     (if 1 \<le> x then int (floorlog 2 (nat \<lfloor>x\<rfloor>)) - 1
      else - int (floorlog 2 (nat (\<lceil>1 / x\<rceil> - 1))))"

definition roundHalfEven :: "rat \<Rightarrow> int" where
  "roundHalfEven q =
     (let f = \<lfloor>q\<rfloor>; d = q - of_int f
      in if d < 1 / 2 then f else if 1 / 2 < d then f + 1 else if even f then f else f + 1)"

definition fl64 :: "rat \<Rightarrow> number" where
  "fl64 x =
     (if x = 0 then 0
      else let u = pow2 (binade \<bar>x\<bar> - 52)
           in sgn x * of_int (roundHalfEven (\<bar>x\<bar> / u)) * u)"

definition js_mul :: "number \<Rightarrow> number \<Rightarrow> number" where
  "js_mul a b = fl64 (a * b)"

definition js_sub :: "number \<Rightarrow> number \<Rightarrow> number" where
  "js_sub a b = fl64 (a - b)"

text \<open>
  \<open>a || b\<close> on an optional number: \<open>undefined\<close> (here \<open>None\<close>) and \<open>0\<close> are falsy.
  On an optional boolean, \<open>undefined\<close> and \<open>false\<close> are. \<open>a ?? b\<close> replaces \<open>undefined\<close> only.
\<close>

definition orNumber :: "number option \<Rightarrow> number \<Rightarrow> number" where
  "orNumber a b = (case a of None \<Rightarrow> b | Some v \<Rightarrow> if v = 0 then b else v)"

definition orBool :: "bool option \<Rightarrow> bool \<Rightarrow> bool" where
  "orBool a b = (case a of None \<Rightarrow> b | Some v \<Rightarrow> if v then v else b)"

definition orString :: "string option \<Rightarrow> string \<Rightarrow> string" where
  "orString a b = (case a of None \<Rightarrow> b | Some v \<Rightarrow> if v = [] then b else v)"

definition nullish :: "'a option \<Rightarrow> 'a \<Rightarrow> 'a" where
  "nullish a b = (case a of None \<Rightarrow> b | Some v \<Rightarrow> v)"

section \<open>MockAIService: the simulator\<close>

record MockAIServiceConfig =
  cfg_responseDelay :: "number option"
  cfg_enableRandomErrors :: "bool option"
  cfg_errorRate :: "number option"

record MockAIService =
  responseDelay :: number
  enableRandomErrors :: bool
  errorRate :: number

text \<open>A configuration object with no field set, the constructor's default argument.\<close>

definition emptyMockConfig :: MockAIServiceConfig where
  "emptyMockConfig =
     \<lparr>cfg_responseDelay = None, cfg_enableRandomErrors = None, cfg_errorRate = None\<rparr>"

definition newMockAIService :: "MockAIServiceConfig \<Rightarrow> MockAIService" where
  "newMockAIService config =
     \<lparr>responseDelay = orNumber (cfg_responseDelay config) 500,
      enableRandomErrors = orBool (cfg_enableRandomErrors config) False,
      errorRate = orNumber (cfg_errorRate config) (fl64 (1 / 10))\<rparr>"

text \<open>
  \<open>shouldSimulateError\<close>: \<open>rnd\<close> is the value \<open>Math.random()\<close> returns, a number in \<open>[0, 1)\<close>
  supplied by the environment. It is only looked at when random errors are enabled.
\<close>

definition shouldSimulateError :: "MockAIService \<Rightarrow> number \<Rightarrow> bool" where
  "shouldSimulateError svc rnd = (if \<not> enableRandomErrors svc then False else rnd < errorRate svc)"


subsection \<open>Generation\<close>

text \<open>
  The title every template carries:
  \<open>requirements.toLowerCase().replace(/[^a-z0-9]/g, ' ').trim()\<close>.
\<close>

definition testTitle :: "string \<Rightarrow> string" where
  "testTitle requirements = trim (replaceNonLowerAlnum (CHR '' '') (toLowerCase requirements))"

text \<open>
  The five template literals of \<open>generatePlaywrightTest\<close>, line by line. \<open>context\<close> is
  \<open>None\<close> when the caller passed none.
\<close>

definition template_login :: "string \<Rightarrow> string" where
  \<open>template_login requirements = concat
     [''\<newline>'',
      ''import { test, expect } from '@playwright/test';\<newline>'',
      ''\<newline>'',
      ''test('', [CHR 0x27], testTitle requirements, ''', async ({ page }) => {\<newline>'',
      ''  // Navigate to the login page\<newline>'',
      ''  await page.goto('https://example.com/login');\<newline>'',
      ''  \<newline>'',
      ''  // Fill in login credentials\<newline>'',
      ''  await page.fill('[data-testid="email"]', 'test@example.com');\<newline>'',
      ''  await page.fill('[data-testid="password"]', 'password123');\<newline>'',
      ''  \<newline>'',
      ''  // Submit the form\<newline>'',
      ''  await page.click('[data-testid="login-button"]');\<newline>'',
      ''  \<newline>'',
      ''  // Verify successful login\<newline>'',
      ''  await expect(page).toHaveURL(/.*dashboard/);\<newline>'',
      ''  await expect(page.locator('[data-testid="user-menu"]')).toBeVisible();\<newline>'',
      ''  \<newline>'',
      ''  // Additional verification\<newline>'',
      ''  await expect(page.locator('text=Welcome')).toBeVisible();\<newline>'',
      ''});'']\<close>

definition template_navigation :: "string \<Rightarrow> string" where
  \<open>template_navigation requirements = concat
     [''\<newline>'',
      ''import { test, expect } from '@playwright/test';\<newline>'',
      ''\<newline>'',
      ''test('', [CHR 0x27], testTitle requirements, ''', async ({ page }) => {\<newline>'',
      ''  // Navigate to the main page\<newline>'',
      ''  await page.goto('https://example.com');\<newline>'',
      ''  \<newline>'',
      ''  // Verify page loads correctly\<newline>'',
      ''  await expect(page).toHaveTitle(/Example/);\<newline>'',
      ''  await expect(page.locator('nav')).toBeVisible();\<newline>'',
      ''  \<newline>'',
      ''  // Test navigation links\<newline>'',
      ''  const navLinks = page.locator('nav a');\<newline>'',
      ''  await expect(navLinks).toHaveCount(5);\<newline>'',
      ''  \<newline>'',
      ''  // Click on a navigation link\<newline>'',
      ''  await page.click('nav a[href="/about"]');\<newline>'',
      ''  await expect(page).toHaveURL(/.*about/);\<newline>'',
      ''  \<newline>'',
      ''  // Verify page content\<newline>'',
      ''  await expect(page.locator('h1')).toContainText('About');\<newline>'',
      ''});'']\<close>

definition template_form :: "string \<Rightarrow> string" where
  \<open>template_form requirements = concat
     [''\<newline>'',
      ''import { test, expect } from '@playwright/test';\<newline>'',
      ''\<newline>'',
      ''test('', [CHR 0x27], testTitle requirements, ''', async ({ page }) => {\<newline>'',
      ''  // Navigate to the form page\<newline>'',
      ''  await page.goto('https://example.com/contact');\<newline>'',
      ''  \<newline>'',
      ''  // Fill out the form\<newline>'',
      ''  await page.fill('[name="name"]', 'John Doe');\<newline>'',
      ''  await page.fill('[name="email"]', 'john@example.com');\<newline>'',
      ''  await page.fill('[name="message"]', 'This is a test message');\<newline>'',
      ''  \<newline>'',
      ''  // Submit the form\<newline>'',
      ''  await page.click('button[type="submit"]');\<newline>'',
      ''  \<newline>'',
      ''  // Verify success message\<newline>'',
      ''  await expect(page.locator('.success-message')).toBeVisible();\<newline>'',
      ''  await expect(page.locator('.success-message')).toContainText('Thank you');\<newline>'',
      ''});'']\<close>

definition template_shopping :: "string \<Rightarrow> string" where
  \<open>template_shopping requirements = concat
     [''\<newline>'',
      ''import { test, expect } from '@playwright/test';\<newline>'',
      ''\<newline>'',
      ''test('', [CHR 0x27], testTitle requirements, ''', async ({ page }) => {\<newline>'',
      ''  // Navigate to the store\<newline>'',
      ''  await page.goto('https://example.com/store');\<newline>'',
      ''  \<newline>'',
      ''  // Browse products\<newline>'',
      ''  await expect(page.locator('.product-card')).toHaveCount(10);\<newline>'',
      ''  \<newline>'',
      ''  // Add item to cart\<newline>'',
      ''  await page.click('.product-card:first-child .add-to-cart');\<newline>'',
      ''  await expect(page.locator('.cart-count')).toHaveText('1');\<newline>'',
      ''  \<newline>'',
      ''  // Go to cart\<newline>'',
      ''  await page.click('.cart-icon');\<newline>'',
      ''  await expect(page).toHaveURL(/.*cart/);\<newline>'',
      ''  \<newline>'',
      ''  // Verify cart contents\<newline>'',
      ''  await expect(page.locator('.cart-item')).toHaveCount(1);\<newline>'',
      ''  await expect(page.locator('.cart-total')).toBeVisible();\<newline>'',
      ''});'']\<close>

definition template_default :: "string \<Rightarrow> string option \<Rightarrow> string" where
  \<open>template_default requirements context = concat
     [''\<newline>'',
      ''import { test, expect } from '@playwright/test';\<newline>'',
      ''\<newline>'',
      ''test('', [CHR 0x27], testTitle requirements, ''', async ({ page }) => {\<newline>'',
      ''  // Navigate to the page\<newline>'',
      ''  await page.goto('https://example.com');\<newline>'',
      ''  \<newline>'',
      ''  // Verify page loads\<newline>'',
      ''  await expect(page).toHaveTitle(/Example/);\<newline>'',
      ''  await expect(page.locator('body')).toBeVisible();\<newline>'',
      ''  \<newline>'',
      ''  // Test basic functionality\<newline>'',
      ''  await expect(page.locator('main')).toBeVisible();\<newline>'',
      ''  \<newline>'',
      ''  // Additional context: '', orString context ''No additional context provided'', ''\<newline>'',
      ''  \<newline>'',
      ''  // Verify page is responsive\<newline>'',
      ''  await page.setViewportSize({ width: 1280, height: 720 });\<newline>'',
      ''  await expect(page.locator('nav')).toBeVisible();\<newline>'',
      ''  \<newline>'',
      ''  // Test mobile view\<newline>'',
      ''  await page.setViewportSize({ width: 375, height: 667 });\<newline>'',
      ''  await expect(page.locator('.mobile-menu')).toBeVisible();\<newline>'',
      ''});'']\<close>

text \<open>The keys of the template table: \<open>'login'\<close>, \<open>'navigation'\<close>, \<open>'form'\<close>, \<open>'shopping'\<close>, \<open>'default'\<close>.\<close>

datatype template_key = T_login | T_navigation | T_form | T_shopping | T_default

definition testTemplates :: "string \<Rightarrow> string option \<Rightarrow> template_key \<Rightarrow> string" where
  "testTemplates requirements context key =
     (case key of
        T_login \<Rightarrow> template_login requirements
      | T_navigation \<Rightarrow> template_navigation requirements
      | T_form \<Rightarrow> template_form requirements
      | T_shopping \<Rightarrow> template_shopping requirements
      | T_default \<Rightarrow> template_default requirements context)"

text \<open>The choice of the template, on the lower-cased requirements.\<close>

definition selectTemplate :: "string \<Rightarrow> template_key" where
  "selectTemplate reqLower =
     (if includesStr reqLower ''login'' \<or> includesStr reqLower ''auth'' then T_login
      else if includesStr reqLower ''nav'' \<or> includesStr reqLower ''menu'' then T_navigation
      else if includesStr reqLower ''form'' \<or> includesStr reqLower ''submit'' then T_form
      else if includesStr reqLower ''shop'' \<or> includesStr reqLower ''cart''
              \<or> includesStr reqLower ''store'' then T_shopping
      else T_default)"

definition generatePlaywrightTest :: "string \<Rightarrow> string option \<Rightarrow> string" where
  "generatePlaywrightTest requirements context =
     (let reqLower = toLowerCase requirements;
          template = selectTemplate reqLower
      in testTemplates requirements context template)"

subsection \<open>Analysis\<close>

record analysis =
  quality :: string
  coverage :: string
  suggestions :: "string list"
  improvements :: "string list"

definition analyzeTestCode :: "string \<Rightarrow> analysis" where
  "analyzeTestCode testCode =
     (let a0 = \<lparr>quality = ''Good'', coverage = ''Medium'', suggestions = [], improvements = []\<rparr>;
          a1 = (if \<not> includesStr testCode ''import { test, expect }''
                then a0\<lparr>suggestions := suggestions a0 @ [''Add proper Playwright imports'']\<rparr>
                else a0);
          a2 = (if \<not> includesStr testCode ''page.goto''
                then a1\<lparr>suggestions := suggestions a1 @ [''Consider adding page navigation'']\<rparr>
                else a1);
          a3 = (if \<not> includesStr testCode ''expect(''
                then a2\<lparr>suggestions :=
                       suggestions a2 @ [''Add assertions to verify expected behavior'']\<rparr>
                else a2);
          a4 = (if includesStr testCode ''await page.click'' \<and> \<not> includesStr testCode ''expect''
                then a3\<lparr>improvements :=
                       improvements a3 @ [''Add assertions after click actions'']\<rparr>
                else a3);
          a5 = (if includesStr testCode ''page.fill'' \<and> \<not> includesStr testCode ''expect''
                then a4\<lparr>improvements :=
                       improvements a4 @ [''Verify form submissions with assertions'']\<rparr>
                else a4);
          score = (100 :: int) - int (length (suggestions a5)) * 10
                    - int (length (improvements a5)) * 5
      in if 80 \<le> score then a5\<lparr>quality := ''Excellent'', coverage := ''High''\<rparr>
         else if 60 \<le> score then a5\<lparr>quality := ''Good'', coverage := ''Medium''\<rparr>
         else a5\<lparr>quality := ''Needs Improvement'', coverage := ''Low''\<rparr>)"

subsection \<open>The simulator's operations\<close>

text \<open>
  Every operation first waits \<open>responseDelay\<close> milliseconds; the wait always ends and
  changes nothing, and is not modelled. Each operation then makes one call of
  \<open>shouldSimulateError\<close>, whose random draw is the argument \<open>rnd\<close>.
\<close>

record validation =
  valid :: bool
  issues :: "string list"
  warnings :: "string list"

record context_entry =
  ctx_file_path :: string
  ctx_content :: string

record TestGenerationRequest =
  requirements :: string
  ctx :: "string option"
  pageUrl :: "string option"
  existingTests :: "string option"

record TestGenerationResponse =
  success :: bool
  code :: "string option"
  error :: "string option"
  validation :: "validation option"
  context_used :: "context_entry list option"

record TestAnalysisRequest =
  testCode :: string
  testName :: "string option"

record TestAnalysisResponse =
  a_success :: bool
  a_analysis :: "analysis option"
  a_error :: "string option"

definition MockAIService_checkHealth :: "MockAIService \<Rightarrow> number \<Rightarrow> bool" where
  "MockAIService_checkHealth svc rnd = (\<not> shouldSimulateError svc rnd)"

definition MockAIService_generateTest ::
  "MockAIService \<Rightarrow> number \<Rightarrow> TestGenerationRequest \<Rightarrow> TestGenerationResponse" where
  "MockAIService_generateTest svc rnd request =
     (if shouldSimulateError svc rnd then
        \<lparr>success = False, code = None,
         error = Some ''Mock AI service temporarily unavailable'',
         validation = None, context_used = None\<rparr>
      else
        let generatedCode = generatePlaywrightTest (requirements request) (ctx request)
        in \<lparr>success = True, code = Some generatedCode, error = None,
            validation = Some \<lparr>valid = True, issues = [],
              warnings = [''Generated by mock AI service for development'']\<rparr>,
            context_used = Some [\<lparr>ctx_file_path = ''mock-context.ts'',
              ctx_content = ''Mock context for development''\<rparr>]\<rparr>)"

definition MockAIService_analyzeTest ::
  "MockAIService \<Rightarrow> number \<Rightarrow> TestAnalysisRequest \<Rightarrow> TestAnalysisResponse" where
  "MockAIService_analyzeTest svc rnd request =
     (if shouldSimulateError svc rnd then
        \<lparr>a_success = False, a_analysis = None,
         a_error = Some ''Mock analysis service temporarily unavailable''\<rparr>
      else
        let analysis = analyzeTestCode (testCode request)
        in \<lparr>a_success = True, a_analysis = Some analysis, a_error = None\<rparr>)"

definition MockAIService_modifyTest ::
  "MockAIService \<Rightarrow> number \<Rightarrow> string \<Rightarrow> string \<Rightarrow> TestGenerationResponse" where
  "MockAIService_modifyTest svc rnd filePath modificationRequest =
     (if shouldSimulateError svc rnd then
        \<lparr>success = False, code = None,
         error = Some ''Mock modification service temporarily unavailable'',
         validation = None, context_used = None\<rparr>
      else
        let modifiedCode = generatePlaywrightTest modificationRequest None
        in \<lparr>success = True,
            code = Some (''// Modified test based on: '' @ modificationRequest @ ''\<newline>''
                         @ modifiedCode),
            error = None,
            validation = Some \<lparr>valid = True, issues = [],
              warnings = [''Modified by mock AI service'']\<rparr>,
            context_used = None\<rparr>)"

text \<open>
  Search. \<open>numResults\<close> is \<open>None\<close> when the caller passed none (the default 10 applies);
  it is an integer. \<open>clock i\<close> is what \<open>new Date().toISOString()\<close> returns in round \<open>i\<close>
  of the loop.
\<close>

record search_metadata =
  file_path :: string
  test_name :: string
  created_at :: string

record search_entry =
  metadata :: search_metadata
  content :: string
  score :: number

definition mockResult :: "(nat \<Rightarrow> string) \<Rightarrow> string \<Rightarrow> nat \<Rightarrow> search_entry" where
  "mockResult clock query i =
     \<lparr>metadata = \<lparr>file_path = ''tests/mock-result-'' @ numberToString (i + 1) @ ''.spec.ts'',
                   test_name = ''Mock Test '' @ numberToString (i + 1),
                   created_at = clock i\<rparr>,
      content = ''// Mock test content for: '' @ query
                @ ''\<newline>// This is a generated search result for development purposes'',
      score = js_sub (fl64 (9 / 10)) (js_mul (of_nat i) (fl64 (1 / 10)))\<rparr>"

function searchLoop ::
  "(nat \<Rightarrow> string) \<Rightarrow> string \<Rightarrow> int \<Rightarrow> nat \<Rightarrow> search_entry list \<Rightarrow> search_entry list" where
  "searchLoop clock query bound i mockResults =
     (if int i < bound
      then searchLoop clock query bound (i + 1) (mockResults @ [mockResult clock query i])
      else mockResults)"
  by pat_completeness auto
termination
  by (relation "measure (\<lambda>(clock, query, bound, i, mockResults). nat (bound - int i))") auto

declare searchLoop.simps [simp del]

definition MockAIService_searchTests ::
  "MockAIService \<Rightarrow> number \<Rightarrow> (nat \<Rightarrow> string) \<Rightarrow> string \<Rightarrow> int option \<Rightarrow> search_entry list" where
  "MockAIService_searchTests svc rnd clock query numResults =
     (if shouldSimulateError svc rnd then []
      else searchLoop clock query (min (nullish numResults 10) 5) 0 [])"

text \<open>
  Saving. The file system and the clock are the environment: whether the directory
  exists, whether \<open>mkdirSync\<close> and \<open>writeFileSync\<close> return or throw (and how the thrown
  value prints), what \<open>Date.now()\<close> returns and what \<open>path.join\<close> computes. The file
  written is not part of the model. An argument whose name is also a field of a record
  is written with the suffix \<open>Arg\<close>.
\<close>

datatype attempt = Returns | Throws string

record save_env =
  existsSync :: bool
  mkdirSync :: attempt
  now :: nat
  path_join :: "string \<Rightarrow> string \<Rightarrow> string"
  writeFileSync :: attempt

record SaveResponse =
  s_success :: bool
  s_filePath :: "string option"
  s_file_path :: "string option"
  s_message :: "string option"
  s_error :: "string option"

definition saveFailed :: "string \<Rightarrow> SaveResponse" where
  "saveFailed e =
     \<lparr>s_success = False, s_filePath = None, s_file_path = None, s_message = None,
      s_error = Some (''Failed to save test: '' @ e)\<rparr>"

definition MockAIService_saveTest ::
  "MockAIService \<Rightarrow> number \<Rightarrow> save_env \<Rightarrow> string \<Rightarrow> string \<Rightarrow> string option \<Rightarrow> SaveResponse" where
  "MockAIService_saveTest svc rnd env codeArg testNameArg outputDirArg =
     (let outputDir = nullish outputDirArg ''tests''
      in if shouldSimulateError svc rnd then
           \<lparr>s_success = False, s_filePath = None, s_file_path = None, s_message = None,
            s_error = Some ''Mock save service temporarily unavailable''\<rparr>
         else
           case (if \<not> existsSync env then mkdirSync env else Returns) of
             Throws e \<Rightarrow> saveFailed e
           | Returns \<Rightarrow>
               (let fileName = replaceNonAlnum (CHR ''-'') testNameArg @ ''-''
                                 @ numberToString (now env) @ ''.spec.ts'';
                    filePath = path_join env outputDir fileName
                in (case writeFileSync env of
                      Throws e \<Rightarrow> saveFailed e
                    | Returns \<Rightarrow>
                        \<lparr>s_success = True, s_filePath = None, s_file_path = Some filePath,
                         s_message = Some ''Test saved successfully by mock service'',
                         s_error = None\<rparr>)))"

section \<open>AIServiceIntegration: the client of the real service\<close>

text \<open>
  The client's two fields, base URL and timeout, only parametrise the HTTP call. The
  outcome of that call is the environment's: the promise resolves with a response, or
  rejects with an Axios error (carrying \<open>error.response?.data?.detail\<close>, if any, and
  \<open>error.message\<close>) or with some other thrown value (carried as it prints). The \<open>data\<close>
  of a response is \<open>null\<close> (\<open>undefined\<close> behaves alike) or an object of the type the
  client declares for it; the client does not examine it. Reading a property of \<open>null\<close>
  throws a \<open>TypeError\<close>, here with the text Node prints for it.

  A method's result is \<open>Inl e\<close> when the exception \<open>e\<close> leaves the method and \<open>Inr r\<close>
  when it returns \<open>r\<close>; next to it comes what the method wrote to the console. The emoji
  that starts some console lines is left out.
\<close>

datatype exn = AxiosError "string option" string | OtherError string

datatype 'a body = Null | Body 'a

datatype 'a http = Resolved "'a body" | Rejected exn

datatype console = Log string | Warn string exn

definition nullDereference :: "string \<Rightarrow> exn" where
  "nullDereference property =
     OtherError (''TypeError: Cannot read properties of null (reading '' @ [CHR 0x27]
                 @ property @ [CHR 0x27] @ '')'')"

text \<open>\<open>b.property\<close>: the object behind \<open>b\<close>, whose field is then read, or the \<open>TypeError\<close>.\<close>

definition readBody :: "string \<Rightarrow> 'a body \<Rightarrow> exn + 'a" where
  "readBody property b = (case b of Null \<Rightarrow> Inl (nullDereference property) | Body d \<Rightarrow> Inr d)"

text \<open>
  The start of a \<open>try\<close> block that awaits the HTTP call and then reads \<open>property\<close> of
  \<open>response.data\<close>: what reaches the \<open>catch\<close> block (\<open>Inl\<close>), or the data.
\<close>

definition awaitData :: "string \<Rightarrow> 'a http \<Rightarrow> exn + 'a" where
  "awaitData property http =
     (case http of Rejected e \<Rightarrow> Inl e | Resolved b \<Rightarrow> readBody property b)"

record HealthData =
  status :: "string option"

record SearchData =
  results :: "search_entry list option"

record SaveData =
  d_success :: bool
  d_file_path :: "string option"
  d_error :: "string option"

definition AIServiceIntegration_checkHealth :: "HealthData http \<Rightarrow> (exn + bool) \<times> console list" where
  "AIServiceIntegration_checkHealth http =
     (case awaitData ''status'' http of
        Inr data \<Rightarrow> (Inr (status data = Some ''healthy''), [])
      | Inl e \<Rightarrow> (Inr False, [Warn ''AI service health check failed:'' e]))"

definition errorText :: "exn \<Rightarrow> string" where
  "errorText e =
     (case e of
        AxiosError detail message \<Rightarrow> orString detail message
      | OtherError shown \<Rightarrow> ''Unexpected error: '' @ shown)"

definition generationFailed :: "exn \<Rightarrow> TestGenerationResponse" where
  "generationFailed e =
     \<lparr>success = False, code = None, error = Some (errorText e), validation = None,
      context_used = None\<rparr>"

text \<open>
  \<open>generateTest\<close>, \<open>analyzeTest\<close> and \<open>modifyTest\<close> return \<open>response.data\<close> as it came,
  so also \<open>null\<close>.
\<close>

definition AIServiceIntegration_generateTest ::
  "TestGenerationResponse http \<Rightarrow> TestGenerationRequest
     \<Rightarrow> (exn + TestGenerationResponse body) \<times> console list" where
  "AIServiceIntegration_generateTest http request =
     (case http of
        Resolved data \<Rightarrow> (Inr data, [])
      | Rejected e \<Rightarrow> (Inr (Body (generationFailed e)), []))"

definition AIServiceIntegration_analyzeTest ::
  "TestAnalysisResponse http \<Rightarrow> TestAnalysisRequest
     \<Rightarrow> (exn + TestAnalysisResponse body) \<times> console list" where
  "AIServiceIntegration_analyzeTest http request =
     (case http of
        Resolved data \<Rightarrow> (Inr data, [])
      | Rejected e \<Rightarrow>
          (Inr (Body \<lparr>a_success = False, a_analysis = None, a_error = Some (errorText e)\<rparr>),
           []))"

definition AIServiceIntegration_modifyTest ::
  "TestGenerationResponse http \<Rightarrow> string \<Rightarrow> string
     \<Rightarrow> (exn + TestGenerationResponse body) \<times> console list" where
  "AIServiceIntegration_modifyTest http filePath modificationRequest =
     (case http of
        Resolved data \<Rightarrow> (Inr data, [])
      | Rejected e \<Rightarrow> (Inr (Body (generationFailed e)), []))"

definition AIServiceIntegration_searchTests ::
  "SearchData http \<Rightarrow> string \<Rightarrow> int option \<Rightarrow> (exn + search_entry list) \<times> console list" where
  "AIServiceIntegration_searchTests http query numResults =
     (case awaitData ''results'' http of
        Inr data \<Rightarrow> (Inr (nullish (results data) []), [])
      | Inl e \<Rightarrow> (Inr [], [Warn ''Test search failed:'' e]))"

definition AIServiceIntegration_saveTest ::
  "SaveData http \<Rightarrow> string \<Rightarrow> string \<Rightarrow> string option \<Rightarrow> (exn + SaveResponse) \<times> console list" where
  "AIServiceIntegration_saveTest http codeArg testNameArg outputDirArg =
     (case awaitData ''success'' http of
        Inr data \<Rightarrow>
          (Inr \<lparr>s_success = d_success data, s_filePath = d_file_path data, s_file_path = None,
                s_message = None, s_error = d_error data\<rparr>, [])
      | Inl e \<Rightarrow>
          (Inr \<lparr>s_success = False, s_filePath = None, s_file_path = None, s_message = None,
                s_error = Some (errorText e)\<rparr>, []))"

section \<open>EnhancedAIService: the gateway\<close>

text \<open>
  The gateway's state is its fields: the simulator it owns, the flag \<open>useMock\<close> (the mode:
  simulated when set, real when not) and the flag \<open>autoFallback\<close>. The client of the real
  service has no state of its own in the model. Every operation returns its result (or the
  exception that leaves it), the lines written to the console, and the gateway afterwards.

  \<open>generateTest\<close>, \<open>analyzeTest\<close> and \<open>modifyTest\<close> await the client inside their \<open>try\<close>
  block and then read \<open>result.success\<close>; when the client has handed on a \<open>null\<close>, that
  read throws and the \<open>catch\<close> block runs. \<open>awaitResult\<close> is this start of the block.
\<close>

definition awaitResult ::
  "string \<Rightarrow> (exn + 'a body) \<times> console list \<Rightarrow> (exn + 'a) \<times> console list" where
  "awaitResult property r =
     (case r of
        (Inl e, out) \<Rightarrow> (Inl e, out)
      | (Inr b, out) \<Rightarrow> (readBody property b, out))"

record EnhancedAIServiceConfig =
  cfg_useMock :: "bool option"
  cfg_mockConfig :: "MockAIServiceConfig option"
  cfg_autoFallback :: "bool option"

record EnhancedAIService =
  mockService :: MockAIService
  useMock :: bool
  autoFallback :: bool

definition newEnhancedAIService :: "EnhancedAIServiceConfig \<Rightarrow> EnhancedAIService" where
  "newEnhancedAIService config =
     \<lparr>mockService = newMockAIService (nullish (cfg_mockConfig config) emptyMockConfig),
      useMock = nullish (cfg_useMock config) False,
      autoFallback = nullish (cfg_autoFallback config) True\<rparr>"

text \<open>
  The exported default instance; \<open>useMockEnv\<close> says whether the environment variable
  \<open>USE_MOCK_AI\<close> is \<open>'true'\<close>.
\<close>

definition enhancedAIService :: "bool \<Rightarrow> EnhancedAIService" where
  "enhancedAIService useMockEnv =
     newEnhancedAIService
       \<lparr>cfg_useMock = Some useMockEnv,
        cfg_mockConfig = Some \<lparr>cfg_responseDelay = Some 300,
          cfg_enableRandomErrors = Some False, cfg_errorRate = None\<rparr>,
        cfg_autoFallback = Some True\<rparr>"

definition enableMock :: "EnhancedAIService \<Rightarrow> console list \<times> EnhancedAIService" where
  "enableMock g = ([Log ''Switched to Mock AI Service''], g\<lparr>useMock := True\<rparr>)"

definition enableReal :: "EnhancedAIService \<Rightarrow> console list \<times> EnhancedAIService" where
  "enableReal g = ([Log ''Switched to Real AI Service''], g\<lparr>useMock := False\<rparr>)"

definition getCurrentService :: "EnhancedAIService \<Rightarrow> string" where
  "getCurrentService g = (if useMock g then ''mock'' else ''real'')"

definition EnhancedAIService_checkHealth ::
  "EnhancedAIService \<Rightarrow> HealthData http \<Rightarrow> number
     \<Rightarrow> (exn + bool) \<times> console list \<times> EnhancedAIService" where
  "EnhancedAIService_checkHealth g http rnd =
     (if useMock g then (Inr (MockAIService_checkHealth (mockService g) rnd), [], g)
      else
        case AIServiceIntegration_checkHealth http of
          (Inl e, out) \<Rightarrow> (Inl e, out, g)
        | (Inr isHealthy, out) \<Rightarrow>
            if \<not> isHealthy \<and> autoFallback g then
              (Inr (MockAIService_checkHealth (mockService g) rnd),
               out @ [Log ''Real AI service unhealthy, falling back to mock service''],
               g\<lparr>useMock := True\<rparr>)
            else (Inr isHealthy, out, g))"

definition EnhancedAIService_generateTest ::
  "EnhancedAIService \<Rightarrow> TestGenerationResponse http \<Rightarrow> number \<Rightarrow> TestGenerationRequest
     \<Rightarrow> (exn + TestGenerationResponse) \<times> console list \<times> EnhancedAIService" where
  "EnhancedAIService_generateTest g http rnd request =
     (if useMock g then (Inr (MockAIService_generateTest (mockService g) rnd request), [], g)
      else
        case awaitResult ''success'' (AIServiceIntegration_generateTest http request) of
          (Inr result, out) \<Rightarrow>
            if \<not> success result \<and> autoFallback g then
              (Inr (MockAIService_generateTest (mockService g) rnd request),
               out @ [Log ''Real AI service failed, falling back to mock service''],
               g\<lparr>useMock := True\<rparr>)
            else (Inr result, out, g)
        | (Inl e, out) \<Rightarrow>
            if autoFallback g then
              (Inr (MockAIService_generateTest (mockService g) rnd request),
               out @ [Log ''Real AI service error, falling back to mock service''],
               g\<lparr>useMock := True\<rparr>)
            else (Inl e, out, g))"

text \<open>
  \<open>analyzeTest\<close> hands the simulator a copy of the request that keeps the test name only
  when it is truthy, that is, present and not empty.
\<close>

definition mockRequest :: "TestAnalysisRequest \<Rightarrow> TestAnalysisRequest" where
  "mockRequest request =
     \<lparr>testCode = testCode request,
      testName = (case testName request of
                    None \<Rightarrow> None
                  | Some n \<Rightarrow> if n = [] then None else Some n)\<rparr>"

definition EnhancedAIService_analyzeTest ::
  "EnhancedAIService \<Rightarrow> TestAnalysisResponse http \<Rightarrow> number \<Rightarrow> TestAnalysisRequest
     \<Rightarrow> (exn + TestAnalysisResponse) \<times> console list \<times> EnhancedAIService" where
  "EnhancedAIService_analyzeTest g http rnd request =
     (if useMock g then
        (Inr (MockAIService_analyzeTest (mockService g) rnd (mockRequest request)), [], g)
      else
        case awaitResult ''success'' (AIServiceIntegration_analyzeTest http request) of
          (Inr result, out) \<Rightarrow>
            if \<not> a_success result \<and> autoFallback g then
              (Inr (MockAIService_analyzeTest (mockService g) rnd (mockRequest request)),
               out @ [Log ''Real AI service failed, falling back to mock service''],
               g\<lparr>useMock := True\<rparr>)
            else (Inr result, out, g)
        | (Inl e, out) \<Rightarrow>
            if autoFallback g then
              (Inr (MockAIService_analyzeTest (mockService g) rnd (mockRequest request)),
               out @ [Log ''Real AI service error, falling back to mock service''],
               g\<lparr>useMock := True\<rparr>)
            else (Inl e, out, g))"

definition EnhancedAIService_modifyTest ::
  "EnhancedAIService \<Rightarrow> TestGenerationResponse http \<Rightarrow> number \<Rightarrow> string \<Rightarrow> string
     \<Rightarrow> (exn + TestGenerationResponse) \<times> console list \<times> EnhancedAIService" where
  "EnhancedAIService_modifyTest g http rnd filePath modificationRequest =
     (if useMock g then
        (Inr (MockAIService_modifyTest (mockService g) rnd filePath modificationRequest), [], g)
      else
        case awaitResult ''success''
               (AIServiceIntegration_modifyTest http filePath modificationRequest) of
          (Inr result, out) \<Rightarrow>
            if \<not> success result \<and> autoFallback g then
              (Inr (MockAIService_modifyTest (mockService g) rnd filePath modificationRequest),
               out @ [Log ''Real AI service failed, falling back to mock service''],
               g\<lparr>useMock := True\<rparr>)
            else (Inr result, out, g)
        | (Inl e, out) \<Rightarrow>
            if autoFallback g then
              (Inr (MockAIService_modifyTest (mockService g) rnd filePath modificationRequest),
               out @ [Log ''Real AI service error, falling back to mock service''],
               g\<lparr>useMock := True\<rparr>)
            else (Inl e, out, g))"

definition EnhancedAIService_searchTests ::
  "EnhancedAIService \<Rightarrow> SearchData http \<Rightarrow> number \<Rightarrow> (nat \<Rightarrow> string) \<Rightarrow> string
     \<Rightarrow> int option
     \<Rightarrow> (exn + search_entry list) \<times> console list \<times> EnhancedAIService" where
  "EnhancedAIService_searchTests g http rnd clock query numResults =
     (if useMock g then
        (Inr (MockAIService_searchTests (mockService g) rnd clock query
                (Some (nullish numResults 10))), [], g)
      else
        case AIServiceIntegration_searchTests http query (Some (nullish numResults 10)) of
          (Inr result, out) \<Rightarrow>
            if length result = 0 \<and> autoFallback g then
              (Inr (MockAIService_searchTests (mockService g) rnd clock query
                      (Some (nullish numResults 10))),
               out @ [Log ''Real AI service returned no results, falling back to mock service''],
               g\<lparr>useMock := True\<rparr>)
            else (Inr result, out, g)
        | (Inl e, out) \<Rightarrow>
            if autoFallback g then
              (Inr (MockAIService_searchTests (mockService g) rnd clock query
                      (Some (nullish numResults 10))),
               out @ [Log ''Real AI service error, falling back to mock service''],
               g\<lparr>useMock := True\<rparr>)
            else (Inl e, out, g))"

definition EnhancedAIService_saveTest ::
  "EnhancedAIService \<Rightarrow> SaveData http \<Rightarrow> number \<Rightarrow> save_env \<Rightarrow> string \<Rightarrow> string
     \<Rightarrow> string option
     \<Rightarrow> (exn + SaveResponse) \<times> console list \<times> EnhancedAIService" where
  "EnhancedAIService_saveTest g http rnd env codeArg testNameArg outputDirArg =
     (if useMock g then 
        (Inr (MockAIService_saveTest (mockService g) rnd env codeArg testNameArg
                (Some (nullish outputDirArg ''tests''))), [], g)
      else
        case AIServiceIntegration_saveTest http codeArg testNameArg
               (Some (nullish outputDirArg ''tests'')) of
          (Inr result, out) \<Rightarrow>
            if \<not> s_success result \<and> autoFallback g then
              (Inr (MockAIService_saveTest (mockService g) rnd env codeArg testNameArg
                      (Some (nullish outputDirArg ''tests''))),
               out @ [Log ''Real AI service failed, falling back to mock service''],
               g\<lparr>useMock := True\<rparr>)
            else (Inr result, out, g)
        | (Inl e, out) \<Rightarrow>
            if autoFallback g then
              (Inr (MockAIService_saveTest (mockService g) rnd env codeArg testNameArg
                      (Some (nullish outputDirArg ''tests''))),
               out @ [Log ''Real AI service error, falling back to mock service''],
               g\<lparr>useMock := True\<rparr>)
            else (Inl e, out, g))"

record ServiceStatus =
  currentService :: string
  realServiceHealthy :: bool
  mockServiceHealthy :: bool
  status_autoFallback :: bool

definition getServiceStatus ::
  "EnhancedAIService \<Rightarrow> HealthData http \<Rightarrow> number
     \<Rightarrow> (exn + ServiceStatus) \<times> console list \<times> EnhancedAIService" where
  "getServiceStatus g http rnd =
     (case AIServiceIntegration_checkHealth http of
        (Inl e, out) \<Rightarrow> (Inl e, out, g)
      | (Inr healthy, out) \<Rightarrow>
          (Inr \<lparr>currentService = getCurrentService g,
                realServiceHealthy = healthy,
                mockServiceHealthy = MockAIService_checkHealth (mockService g) rnd,
                status_autoFallback = autoFallback g\<rparr>, out, g))"

subsection \<open>Sequences of operations\<close>

text \<open>
  A command is one call of a public method of the gateway, with its arguments and with
  what the environment does during the call. \<open>step\<close> performs one, \<open>run\<close> a sequence; the
  gateway lives on after a call that ended in an exception.
\<close>

datatype command =
    EnableMock
  | EnableReal
  | GetCurrentService
  | CheckHealth "HealthData http" number
  | GenerateTest "TestGenerationResponse http" number TestGenerationRequest
  | AnalyzeTest "TestAnalysisResponse http" number TestAnalysisRequest
  | ModifyTest "TestGenerationResponse http" number string string
  | SearchTests "SearchData http" number "nat \<Rightarrow> string" string "int option"
  | SaveTest "SaveData http" number save_env string string "string option"
  | GetServiceStatus "HealthData http" number

datatype reply =
    Nothing
  | Service string
  | Health bool
  | Generation TestGenerationResponse
  | Analysis TestAnalysisResponse
  | Search "search_entry list"
  | Saved SaveResponse
  | Status ServiceStatus

definition reply_of ::
  "('a \<Rightarrow> reply) \<Rightarrow> (exn + 'a) \<times> console list \<times> EnhancedAIService
     \<Rightarrow> (exn + reply) \<times> console list \<times> EnhancedAIService" where
  "reply_of wrap r = (map_sum id wrap (fst r), snd r)"

fun step :: "EnhancedAIService \<Rightarrow> command \<Rightarrow> (exn + reply) \<times> console list \<times> EnhancedAIService" where
  "step g EnableMock = (Inr Nothing, enableMock g)"
| "step g EnableReal = (Inr Nothing, enableReal g)"
| "step g GetCurrentService = (Inr (Service (getCurrentService g)), [], g)"
| "step g (CheckHealth http rnd) = reply_of Health (EnhancedAIService_checkHealth g http rnd)"
| "step g (GenerateTest http rnd request) =
     reply_of Generation (EnhancedAIService_generateTest g http rnd request)"
| "step g (AnalyzeTest http rnd request) =
     reply_of Analysis (EnhancedAIService_analyzeTest g http rnd request)"
| "step g (ModifyTest http rnd filePath modificationRequest) =
     reply_of Generation (EnhancedAIService_modifyTest g http rnd filePath modificationRequest)"
| "step g (SearchTests http rnd clock query numResults) =
     reply_of Search (EnhancedAIService_searchTests g http rnd clock query numResults)"
| "step g (SaveTest http rnd env codeArg testNameArg outputDirArg) =
     reply_of Saved (EnhancedAIService_saveTest g http rnd env codeArg testNameArg outputDirArg)"
| "step g (GetServiceStatus http rnd) = reply_of Status (getServiceStatus g http rnd)"

definition state_after :: "(exn + 'a) \<times> console list \<times> EnhancedAIService \<Rightarrow> EnhancedAIService" where
  "state_after r = snd (snd r)"

fun run :: "EnhancedAIService \<Rightarrow> command list \<Rightarrow> EnhancedAIService" where
  "run g [] = g"
| "run g (c # cs) = run (state_after (step g c)) cs"

section \<open>The specification's classification\<close>

text \<open>
  The categories of the specification and its classification rule, on the lower-cased
  requirement text: the first group of words one of which occurs in the text decides.
  It is stated with the library's \<^const>\<open>sublist\<close>, independently of the program.
\<close>

datatype category = Authentication | Navigation | FormSubmission | Commerce | Generic

definition spec_category :: "string \<Rightarrow> category" where
  "spec_category lowered =
     (if sublist ''login'' lowered \<or> sublist ''auth'' lowered then Authentication
      else if sublist ''nav'' lowered \<or> sublist ''menu'' lowered then Navigation
      else if sublist ''form'' lowered \<or> sublist ''submit'' lowered then FormSubmission
      else if sublist ''shop'' lowered \<or> sublist ''cart'' lowered \<or> sublist ''store'' lowered
      then Commerce
      else Generic)"

text \<open>The category each template of the program stands for.\<close>

fun category_of :: "template_key \<Rightarrow> category" where
  "category_of T_login = Authentication"
| "category_of T_navigation = Navigation"
| "category_of T_form = FormSubmission"
| "category_of T_shopping = Commerce"
| "category_of T_default = Generic"

text \<open>
  What the five templates share: the text before the title, and the text after it up to
  the first character in which they differ, the \<open>marker\<close>.
\<close>

definition templatePrefix :: string where
  "templatePrefix =
     ''\<newline>import { test, expect } from '@playwright/test';\<newline>\<newline>test('' @ [CHR 0x27]"

definition templateOpening :: string where
  "templateOpening = ''', async ({ page }) => {\<newline>  // Navigate to the ''"

fun marker :: "template_key \<Rightarrow> char" where
  "marker T_login = CHR ''l''"
| "marker T_navigation = CHR ''m''"
| "marker T_form = CHR ''f''"
| "marker T_shopping = CHR ''s''"
| "marker T_default = CHR ''p''"

text \<open>The relevance scores the specification names, as binary64 values.\<close>

definition mockScores :: "number list" where
  "mockScores = map fl64 [9 / 10, 8 / 10, 7 / 10, 6 / 10, 5 / 10]"

section \<open>Sample inputs\<close>

definition sampleRequest :: TestGenerationRequest where
  "sampleRequest =
     \<lparr>requirements = ''Test LOGIN, then the Cart'', ctx = None, pageUrl = None,
      existingTests = None\<rparr>"

definition refused :: exn where
  "refused = AxiosError None ''connect ECONNREFUSED 127.0.0.1:8000''"

definition healthy :: "HealthData http" where
  "healthy = Resolved (Body \<lparr>status = Some ''healthy''\<rparr>)"

definition declaredFailure :: TestGenerationResponse where
  "declaredFailure =
     \<lparr>success = False, code = None, error = Some ''LLM backend is not ready'',
      validation = None, context_used = None\<rparr>"

text \<open>A success as the real service may answer it.\<close>

definition realAnswer :: TestGenerationResponse where
  "realAnswer =
     \<lparr>success = True, code = Some ''// written by the real service'', error = None,
      validation = None, context_used = None\<rparr>"

text \<open>A gateway configured with auto-fallback off.\<close>

definition strictGateway :: EnhancedAIService where
  "strictGateway =
     newEnhancedAIService
       \<lparr>cfg_useMock = None, cfg_mockConfig = None, cfg_autoFallback = Some False\<rparr>"

text \<open>
  Two tests that open a page and click, with no assertion: one with the usual import
  line, one without.
\<close>

definition sampleTestBody :: string where
  \<open>sampleTestBody = concat
     [''test('opens the menu', async ({ page }) => {\<newline>'',
      ''  await page.goto('https://example.com');\<newline>'',
      ''  await page.click('#menu');\<newline>'',
      ''});'']\<close>

definition sampleTestWithImport :: string where
  \<open>sampleTestWithImport =
     ''import { test, expect } from '@playwright/test';\<newline>\<newline>'' @ sampleTestBody\<close>

definition sampleClock :: "nat \<Rightarrow> string" where
  "sampleClock i = ''2025-06-30T03:40:28.123Z''"

section \<open>Properties\<close>

subsection \<open>The number model\<close>

text \<open>
  \<open>binade\<close> finds the power of two below a positive number; \<open>fl64\<close> moves a number by
  at most half a unit in the last place, and returns a multiple of that unit with a
  significand of 53 bits.
\<close>

lemma pow2_powi: "pow2 k = 2 powi k"
  by (simp add: pow2_def power_int_def field_simps)

lemma pow2_pos: "0 < pow2 k"
  by (simp add: pow2_powi)

lemma pow2_add: "pow2 (a + b) = pow2 a * pow2 b"
  by (simp add: pow2_powi power_int_add)

lemma roundHalfEven_error: "\<bar>of_int (roundHalfEven q) - q\<bar> \<le> 1 / 2"
proof -
  have "of_int \<lfloor>q\<rfloor> \<le> q" and "q < of_int \<lfloor>q\<rfloor> + 1" by linarith+
  then show ?thesis
    unfolding roundHalfEven_def Let_def by (auto simp: abs_le_iff)
qed

lemma binade_ge1:
  assumes "1 \<le> x"
  shows "pow2 (binade x) \<le> x" and "x < pow2 (binade x + 1)"
proof -
  let ?n = "nat \<lfloor>x\<rfloor>"
  have n: "0 < ?n" using assms by simp
  from floorlog_bounds [OF n, of 2]
  have lo: "2 ^ (floorlog 2 ?n - 1) \<le> ?n" and hi: "?n < 2 ^ floorlog 2 ?n" by simp_all
  have fl: "0 < floorlog 2 ?n" using n by (simp add: floorlog_def)
  have b: "binade x = int (floorlog 2 ?n - 1)" using assms fl by (simp add: binade_def)
  have "pow2 (binade x) = of_nat (2 ^ (floorlog 2 ?n - 1))"
    unfolding b by (simp add: pow2_def)
  also have "\<dots> \<le> of_nat ?n" using lo by (simp only: of_nat_le_iff)
  also have "\<dots> \<le> x" using assms by simp
  finally show "pow2 (binade x) \<le> x" .
  have "x < of_int (\<lfloor>x\<rfloor> + 1)" by linarith
  also have "\<dots> = of_nat (?n + 1)" using assms by simp
  also have "\<dots> \<le> of_nat (2 ^ floorlog 2 ?n)" using hi by (simp only: of_nat_le_iff)
  also have "\<dots> = pow2 (binade x + 1)" unfolding b using fl by (simp add: pow2_def)
  finally show "x < pow2 (binade x + 1)" .
qed

lemma binade_lt1:
  assumes "0 < x" and "x < 1"
  shows "pow2 (binade x) \<le> x" and "x < pow2 (binade x + 1)"
proof -
  let ?c = "\<lceil>1 / x\<rceil>"
  let ?n = "nat (?c - 1)"
  let ?m = "floorlog 2 ?n"
  have inv: "1 < 1 / x" using assms by simp
  then have c2: "2 \<le> ?c" by linarith
  then have n: "0 < ?n" by linarith
  from floorlog_bounds [OF n, of 2]
  have lo: "2 ^ (?m - 1) \<le> ?n" and hi: "?n < 2 ^ ?m" by simp_all
  have fl: "0 < ?m" using n by (simp add: floorlog_def)
  have b: "binade x = - int ?m" using assms(2) by (simp add: binade_def)
  have cn: "?c = int ?n + 1" using c2 by linarith
  have "int ?n + 1 \<le> 2 ^ ?m" using hi by simp
  then have "?c \<le> 2 ^ ?m" using cn by simp
  then have "(of_int ?c :: rat) \<le> 2 ^ ?m" by simp
  moreover have "1 / x \<le> of_int ?c" by (rule le_of_int_ceiling)
  ultimately have up: "1 / x \<le> 2 ^ ?m" by linarith
  then have "1 / 2 ^ ?m \<le> x" using assms(1) by (simp add: field_simps)
  then show "pow2 (binade x) \<le> x" unfolding b using fl by (simp add: pow2_def)
  have "of_int (?c - 1) < 1 / x" by linarith
  moreover have "(2::rat) ^ (?m - 1) \<le> of_int (?c - 1)"
  proof -
    have "(of_nat (2 ^ (?m - 1)) :: rat) \<le> of_nat ?n" using lo by (simp only: of_nat_le_iff)
    moreover have "0 \<le> ?c - 1" using c2 by linarith
    then have "(of_nat ?n :: rat) = of_int (?c - 1)" by (rule of_nat_nat)
    ultimately show ?thesis by simp
  qed
  ultimately have "(2::rat) ^ (?m - 1) < 1 / x" by linarith
  then have "x < 1 / 2 ^ (?m - 1)" using assms(1) by (simp add: field_simps)
  moreover have "pow2 (binade x + 1) = 1 / 2 ^ (?m - 1)"
  proof (cases "?m = 1")
    case True
    then show ?thesis unfolding b by (simp add: pow2_def)
  next
    case False
    with fl have "1 < ?m" by simp
    then have "nat (int ?m - 1) = ?m - 1" and "\<not> int ?m \<le> 1" by simp_all
    then show ?thesis unfolding b by (simp add: pow2_def)
  qed
  ultimately show "x < pow2 (binade x + 1)" by simp
qed

lemma binade_bounds:
  assumes "0 < x"
  shows "pow2 (binade x) \<le> x" and "x < pow2 (binade x + 1)"
  using assms binade_ge1 [of x] binade_lt1 [of x] by (cases "1 \<le> x"; simp)+

lemma fl64_error:
  assumes "x \<noteq> 0"
  shows "\<bar>fl64 x - x\<bar> \<le> pow2 (binade \<bar>x\<bar> - 53)"
proof -
  let ?u = "pow2 (binade \<bar>x\<bar> - 52)"
  let ?r = "of_int (roundHalfEven (\<bar>x\<bar> / ?u)) :: rat"
  have u: "0 < ?u" by (rule pow2_pos)
  have half: "pow2 (binade \<bar>x\<bar> - 53) = ?u / 2"
    using pow2_add [of "binade \<bar>x\<bar> - 53" 1] by (simp add: pow2_def)
  have "\<bar>fl64 x - x\<bar> = \<bar>?r * ?u - \<bar>x\<bar>\<bar>"
  proof (cases "0 < x")
    case True
    then have "fl64 x = ?r * ?u" by (simp add: fl64_def Let_def)
    with True show ?thesis by simp
  next
    case False
    with assms have neg: "x < 0" by simp
    then have "fl64 x = - (?r * ?u)" by (simp add: fl64_def Let_def)
    with neg have "fl64 x - x = - (?r * ?u - \<bar>x\<bar>)" by simp
    then show ?thesis by (simp only: abs_minus)
  qed
  also have "?r * ?u - \<bar>x\<bar> = ?u * (?r - \<bar>x\<bar> / ?u)"
    using u by (simp add: field_simps)
  also have "\<bar>?u * (?r - \<bar>x\<bar> / ?u)\<bar> = ?u * \<bar>?r - \<bar>x\<bar> / ?u\<bar>"
    using u by (simp add: abs_mult)
  also have "\<dots> \<le> ?u * (1 / 2)"
    using u roundHalfEven_error [of "\<bar>x\<bar> / ?u"] by (simp only: mult_le_cancel_left_pos)
  finally show ?thesis unfolding half by simp
qed

lemma roundHalfEven_floor:
  shows "\<lfloor>q\<rfloor> \<le> roundHalfEven q" and "roundHalfEven q \<le> \<lfloor>q\<rfloor> + 1"
  by (simp_all add: roundHalfEven_def Let_def)

lemma fl64_significand:
  assumes "0 < x"
  shows "\<exists>m. fl64 x = of_int m * pow2 (binade x - 52) \<and> 2 ^ 52 \<le> m \<and> m \<le> 2 ^ 53"
proof -
  let ?u = "pow2 (binade x - 52)"
  let ?q = "x / ?u"
  let ?m = "roundHalfEven ?q"
  have u: "0 < ?u" by (rule pow2_pos)
  have c52: "pow2 52 = 2 ^ 52" and c53: "pow2 53 = 2 ^ 53" by (simp_all add: pow2_def)
  have p: "pow2 (binade x) = 2 ^ 52 * ?u"
    using pow2_add [of 52 "binade x - 52"] by (simp add: c52)
  have p1: "pow2 (binade x + 1) = 2 ^ 53 * ?u"
    using pow2_add [of 53 "binade x - 52"] by (simp add: c53 add.commute)
  from binade_bounds [OF assms] have lo: "2 ^ 52 \<le> ?q" and hi: "?q < 2 ^ 53"
    unfolding p p1 using u by (simp_all add: field_simps)
  have "fl64 x = of_int ?m * ?u" using assms by (simp add: fl64_def Let_def)
  moreover have "2 ^ 52 \<le> ?m"
  proof -
    from lo have "(2 ^ 52 :: int) \<le> \<lfloor>?q\<rfloor>" by (simp add: le_floor_iff)
    with roundHalfEven_floor(1) [of ?q] show ?thesis by linarith
  qed
  moreover have "?m \<le> 2 ^ 53"
  proof -
    from hi have "\<lfloor>?q\<rfloor> < (2 ^ 53 :: int)" by (simp add: floor_less_iff)
    with roundHalfEven_floor(2) [of ?q] show ?thesis by linarith
  qed
  ultimately show ?thesis by blast
qed

text \<open>Evaluation at numerals.\<close>

lemma floor_rat_numeral_div: "\<lfloor>(numeral a / numeral b :: rat)\<rfloor> = numeral a div numeral b"
  using floor_divide_of_int_eq [of "numeral a" "numeral b", where ?'a = rat] by simp

lemma ceiling_rat_numeral_div:
  "\<lceil>(numeral a / numeral b :: rat)\<rceil> = - ((- numeral a) div numeral b)"
  using floor_divide_of_int_eq [of "- numeral a" "numeral b", where ?'a = rat]
  by (simp add: ceiling_def)

lemmas fl64_eval = fl64_def binade_def pow2_def roundHalfEven_def compute_floorlog Let_def
  floor_rat_numeral_div ceiling_rat_numeral_div js_sub_def js_mul_def

lemma fl64_tenth: "fl64 (1 / 10) = 3602879701896397 / 36028797018963968"
  by (simp add: fl64_eval)

lemma fl64_nine_tenths: "fl64 (9 / 10) = 8106479329266893 / 9007199254740992"
  by (simp add: fl64_eval)

subsection \<open>Strings\<close>

lemmas string_eval = toLowerCase_def toLowerChar_def capitals_def smalls_def digitChars_def
  isLowerAlnum_def isAlnum_def isSpace_def replaceNonLowerAlnum_def replaceNonAlnum_def
  trim_def testTitle_def

lemma includesStr_iff_sublist: "includesStr s sub \<longleftrightarrow> sublist sub s"
  by (induction s) (simp_all add: sublist_Cons_right)

subsection \<open>The mode of the gateway\<close>

lemma step_keeps_mock: "useMock g \<Longrightarrow> c \<noteq> EnableReal \<Longrightarrow> useMock (state_after (step g c))"
  by (cases c)
     (simp_all add: state_after_def reply_of_def enableMock_def
        EnhancedAIService_checkHealth_def EnhancedAIService_generateTest_def
        EnhancedAIService_analyzeTest_def EnhancedAIService_modifyTest_def
        EnhancedAIService_searchTests_def EnhancedAIService_saveTest_def
        getServiceStatus_def AIServiceIntegration_checkHealth_def awaitData_def readBody_def
        split: http.split body.split)

lemma run_append: "run g (cs @ ds) = run (run g cs) ds"
  by (induction cs arbitrary: g) simp_all

lemma flipped_by_health_check:
  "useMock (state_after (step (enhancedAIService False) (CheckHealth (Rejected refused) 0)))"
  by (simp add: enhancedAIService_def newEnhancedAIService_def state_after_def reply_of_def
      EnhancedAIService_checkHealth_def AIServiceIntegration_checkHealth_def awaitData_def
      nullish_def)

text \<open>
  C1. No silent recovery: once the gateway is in simulated mode (\<open>useMock\<close> set), it is
  still in simulated mode after every sequence of operations that contains no \<open>enableReal\<close>,
  whatever the real service answers in the meantime; an \<open>enableReal\<close> after the sequence
  puts it in real mode.
\<close>

theorem C1_no_silent_recovery:
  assumes "useMock g" and "EnableReal \<notin> set cs"
  shows "useMock (run g cs) \<and> \<not> useMock (run g (cs @ [EnableReal]))"
proof
  from assms show "useMock (run g cs)"
  proof (induction cs arbitrary: g)
    case Nil
    then show ?case by simp
  next
    case (Cons c cs)
    from Cons.prems have "c \<noteq> EnableReal" and rest: "EnableReal \<notin> set cs" by auto
    with Cons.prems(1) have "useMock (state_after (step g c))" by (simp add: step_keeps_mock)
    with rest show ?case by (simp add: Cons.IH)
  qed
  show "\<not> useMock (run g (cs @ [EnableReal]))"
    by (simp add: run_append state_after_def enableReal_def)
qed

text \<open>
  The default instance in real mode is flipped by a health check that finds the service
  unreachable. A later health check, a status query and a generation, during all of which
  the real service is healthy again, do not flip it back; \<open>enableReal\<close> does.
\<close>

theorem C1_no_silent_recovery_witness:
  "useMock (state_after (step (enhancedAIService False) (CheckHealth (Rejected refused) 0)))
   \<and> EnableReal \<notin> set [CheckHealth healthy 0, GetServiceStatus healthy 0,
        GenerateTest (Resolved (Body realAnswer)) 0 sampleRequest, GetCurrentService]
   \<and> useMock (run (state_after (step (enhancedAIService False) (CheckHealth (Rejected refused) 0)))
        [CheckHealth healthy 0, GetServiceStatus healthy 0,
         GenerateTest (Resolved (Body realAnswer)) 0 sampleRequest, GetCurrentService])
   \<and> \<not> useMock (run (state_after (step (enhancedAIService False)
          (CheckHealth (Rejected refused) 0)))
        ([CheckHealth healthy 0, GetServiceStatus healthy 0,
          GenerateTest (Resolved (Body realAnswer)) 0 sampleRequest, GetCurrentService]
         @ [EnableReal]))"
proof -
  have free: "EnableReal \<notin> set [CheckHealth healthy 0, GetServiceStatus healthy 0,
      GenerateTest (Resolved (Body realAnswer)) 0 sampleRequest, GetCurrentService]"
    by simp
  from C1_no_silent_recovery [OF flipped_by_health_check free] flipped_by_health_check free
  show ?thesis by blast
qed

subsection \<open>Generation by the simulator\<close>

lemma testTemplates_shape:
  "\<exists>rest. testTemplates r c k = templatePrefix @ testTitle r @ templateOpening @ marker k # rest"
  by (cases k)
     (simp_all add: testTemplates_def templatePrefix_def templateOpening_def template_login_def
        template_navigation_def template_form_def template_shopping_def template_default_def)

lemma testTemplates_key_unique:
  assumes "testTemplates r c k = testTemplates r c k'"
  shows "k = k'"
proof -
  obtain rest where a:
    "testTemplates r c k = templatePrefix @ testTitle r @ templateOpening @ marker k # rest"
    using testTemplates_shape by blast
  obtain rest' where b:
    "testTemplates r c k' = templatePrefix @ testTitle r @ templateOpening @ marker k' # rest'"
    using testTemplates_shape by blast
  from assms a b have "marker k = marker k'" by simp
  then show ?thesis by (cases k; cases k') simp_all
qed

lemma testTemplates_nonempty: "testTemplates r c k \<noteq> []"
  using testTemplates_shape [of r c k] by (auto simp: templatePrefix_def)

lemma selectTemplate_category: "category_of (selectTemplate lowered) = spec_category lowered"
  by (simp add: selectTemplate_def spec_category_def includesStr_iff_sublist)

lemma generateTest_no_errors:
  "\<not> enableRandomErrors svc \<Longrightarrow>
     MockAIService_generateTest svc rnd request =
       \<lparr>success = True,
        code = Some (generatePlaywrightTest (requirements request) (ctx request)),
        error = None,
        validation = Some \<lparr>valid = True, issues = [],
          warnings = [''Generated by mock AI service for development'']\<rparr>,
        context_used = Some [\<lparr>ctx_file_path = ''mock-context.ts'',
          ctx_content = ''Mock context for development''\<rparr>]\<rparr>"
  by (simp add: MockAIService_generateTest_def shouldSimulateError_def)

lemma default_simulator_no_errors: "\<not> enableRandomErrors (newMockAIService emptyMockConfig)"
  by (simp add: newMockAIService_def emptyMockConfig_def orBool_def)

lemma default_instance_no_errors: "\<not> enableRandomErrors (mockService (enhancedAIService b))"
  by (simp add: enhancedAIService_def newEnhancedAIService_def newMockAIService_def
      nullish_def orBool_def)

lemma sample_lowered: "toLowerCase (requirements sampleRequest) = ''test login, then the cart''"
  by (simp add: sampleRequest_def string_eval)

text \<open>
  C2. With error injection disabled, a generation by the simulator succeeds, its artifact
  is not empty and is the template of exactly one key, and the category of that key is the
  one the specification's priority rule gives for the lower-cased requirements; so a
  requirement that contains both \<open>login\<close> and \<open>cart\<close> is classified Authentication.
\<close>

theorem C2_classification:
  assumes "\<not> enableRandomErrors svc"
  shows "\<exists>k. success (MockAIService_generateTest svc rnd request)
           \<and> code (MockAIService_generateTest svc rnd request)
               = Some (testTemplates (requirements request) (ctx request) k)
           \<and> testTemplates (requirements request) (ctx request) k \<noteq> []
           \<and> (\<forall>k'. testTemplates (requirements request) (ctx request) k'
                      = testTemplates (requirements request) (ctx request) k \<longrightarrow> k' = k)
           \<and> category_of k = spec_category (toLowerCase (requirements request))
           \<and> (sublist ''login'' (toLowerCase (requirements request))
                \<and> sublist ''cart'' (toLowerCase (requirements request))
                \<longrightarrow> category_of k = Authentication)"
proof (intro exI conjI allI impI)
  let ?k = "selectTemplate (toLowerCase (requirements request))"
  show "success (MockAIService_generateTest svc rnd request)"
    using assms by (simp add: generateTest_no_errors)
  show "code (MockAIService_generateTest svc rnd request)
          = Some (testTemplates (requirements request) (ctx request) ?k)"
    using assms by (simp add: generateTest_no_errors generatePlaywrightTest_def)
  show "testTemplates (requirements request) (ctx request) ?k \<noteq> []"
    by (rule testTemplates_nonempty)
  show "k' = ?k"
    if "testTemplates (requirements request) (ctx request) k'
          = testTemplates (requirements request) (ctx request) ?k" for k'
    using that by (rule testTemplates_key_unique)
  show "category_of ?k = spec_category (toLowerCase (requirements request))"
    by (rule selectTemplate_category)
  show "category_of ?k = Authentication"
    if "sublist ''login'' (toLowerCase (requirements request))
          \<and> sublist ''cart'' (toLowerCase (requirements request))"
    using that by (simp add: selectTemplate_category spec_category_def)
qed

theorem C2_classification_witness:
  "\<not> enableRandomErrors (newMockAIService emptyMockConfig)
   \<and> sublist ''login'' (toLowerCase (requirements sampleRequest))
   \<and> sublist ''cart'' (toLowerCase (requirements sampleRequest))
   \<and> code (MockAIService_generateTest (newMockAIService emptyMockConfig) 0 sampleRequest)
       = Some (template_login (requirements sampleRequest))"
proof -
  have login: "sublist ''login'' (toLowerCase (requirements sampleRequest))"
    unfolding sample_lowered includesStr_iff_sublist [symmetric] by simp
  have cart: "sublist ''cart'' (toLowerCase (requirements sampleRequest))"
    unfolding sample_lowered includesStr_iff_sublist [symmetric] by simp
  from C2_classification [OF default_simulator_no_errors, of 0 sampleRequest] login cart
  obtain k where
    "code (MockAIService_generateTest (newMockAIService emptyMockConfig) 0 sampleRequest)
       = Some (testTemplates (requirements sampleRequest) (ctx sampleRequest) k)"
    and "category_of k = Authentication" by blast
  moreover from this(2) have "k = T_login" by (cases k) simp_all
  ultimately show ?thesis
    using default_simulator_no_errors login cart by (simp add: testTemplates_def)
qed

text \<open>
  C8. Two generations by the simulator with error injection disabled and the same
  requirements and context return the same artifact, whatever the random draws, the rest
  of the simulators' configuration and the other fields of the requests are; and the
  artifact is there.
\<close>

theorem C8_generation_idempotent:
  assumes "\<not> enableRandomErrors svc1" and "\<not> enableRandomErrors svc2"
    and "requirements request1 = requirements request2" and "ctx request1 = ctx request2"
  shows "code (MockAIService_generateTest svc1 rnd1 request1)
           = code (MockAIService_generateTest svc2 rnd2 request2)
         \<and> code (MockAIService_generateTest svc1 rnd1 request1) \<noteq> None"
  using assms by (simp add: generateTest_no_errors)

theorem C8_generation_idempotent_witness:
  "\<not> enableRandomErrors (newMockAIService emptyMockConfig)
   \<and> \<not> enableRandomErrors (mockService (enhancedAIService False))
   \<and> requirements sampleRequest = requirements (sampleRequest\<lparr>pageUrl := Some ''/login''\<rparr>)
   \<and> ctx sampleRequest = ctx (sampleRequest\<lparr>pageUrl := Some ''/login''\<rparr>)
   \<and> code (MockAIService_generateTest (newMockAIService emptyMockConfig) 0 sampleRequest)
       = code (MockAIService_generateTest (mockService (enhancedAIService False)) (1 / 2)
                (sampleRequest\<lparr>pageUrl := Some ''/login''\<rparr>))"
  using C8_generation_idempotent [OF default_simulator_no_errors
      default_instance_no_errors [of False], of sampleRequest
      "sampleRequest\<lparr>pageUrl := Some ''/login''\<rparr>" 0 "1 / 2"]
    default_simulator_no_errors default_instance_no_errors [of False]
  by simp

subsection \<open>Analysis by the simulator\<close>

lemma includesStr_part: "sublist small big \<Longrightarrow> includesStr s big \<Longrightarrow> includesStr s small"
  unfolding includesStr_iff_sublist by (rule sublist_order.order_trans)

lemma no_expect_call: "\<not> includesStr s ''expect'' \<Longrightarrow> \<not> includesStr s ''expect(''"
proof -
  have "sublist ''expect'' ''expect(''"
    unfolding includesStr_iff_sublist [symmetric] by simp
  then show "\<not> includesStr s ''expect'' \<Longrightarrow> \<not> includesStr s ''expect(''"
    using includesStr_part by blast
qed

lemma no_expect_import: "\<not> includesStr s ''expect'' \<Longrightarrow> \<not> includesStr s ''import { test, expect }''"
proof -
  have "sublist ''expect'' ''import { test, expect }''"
    unfolding includesStr_iff_sublist [symmetric] by simp
  then show "\<not> includesStr s ''expect'' \<Longrightarrow> \<not> includesStr s ''import { test, expect }''"
    using includesStr_part by blast
qed

lemma analyzeTest_no_errors:
  "\<not> enableRandomErrors svc \<Longrightarrow>
     MockAIService_analyzeTest svc rnd request =
       \<lparr>a_success = True, a_analysis = Some (analyzeTestCode (testCode request)), a_error = None\<rparr>"
  by (simp add: MockAIService_analyzeTest_def shouldSimulateError_def)

text \<open>
  A test with the usual import line, a navigation and a click but no assertion gets no
  improvement note and the quality Excellent: the word \<open>expect\<close> of the import line
  switches the improvement notes off, and one suggestion alone leaves the score at 90.
\<close>

theorem C6_counterexample:
  "includesStr sampleTestWithImport ''page.goto''
   \<and> includesStr sampleTestWithImport ''await page.click''
   \<and> \<not> includesStr sampleTestWithImport ''expect(''
   \<and> \<not> enableRandomErrors (newMockAIService emptyMockConfig)
   \<and> MockAIService_analyzeTest (newMockAIService emptyMockConfig) 0
        \<lparr>testCode = sampleTestWithImport, testName = None\<rparr>
       = \<lparr>a_success = True,
          a_analysis = Some \<lparr>quality = ''Excellent'', coverage = ''High'',
            suggestions = [''Add assertions to verify expected behavior''],
            improvements = []\<rparr>,
          a_error = None\<rparr>"
proof -
  have goto: "includesStr sampleTestWithImport ''page.goto''"
    by (simp add: sampleTestWithImport_def sampleTestBody_def)
  have click: "includesStr sampleTestWithImport ''await page.click''"
    by (simp add: sampleTestWithImport_def sampleTestBody_def)
  have call: "\<not> includesStr sampleTestWithImport ''expect(''"
    by (simp add: sampleTestWithImport_def sampleTestBody_def)
  have word: "includesStr sampleTestWithImport ''expect''"
    by (simp add: sampleTestWithImport_def sampleTestBody_def)
  have import: "includesStr sampleTestWithImport ''import { test, expect }''"
    by (simp add: sampleTestWithImport_def sampleTestBody_def)
  have "analyzeTestCode sampleTestWithImport
      = \<lparr>quality = ''Excellent'', coverage = ''High'',
         suggestions = [''Add assertions to verify expected behavior''], improvements = []\<rparr>"
    by (simp add: analyzeTestCode_def goto click call word import)
  with goto click call default_simulator_no_errors show ?thesis
    by (simp add: analyzeTest_no_errors)
qed

text \<open>
  C6 (amended). With error injection disabled, for a test code that contains
  \<open>page.goto\<close>, contains \<open>await page.click\<close> or \<open>page.fill\<close>, and does not contain the
  text \<open>expect\<close> anywhere, the analysis succeeds, has the improvement note for each of
  the two interactions present (so at least one), and has quality Good and coverage
  Medium.
\<close>

theorem C6_missing_assertions:
  assumes "\<not> enableRandomErrors svc"
    and "includesStr (testCode request) ''page.goto''"
    and "includesStr (testCode request) ''await page.click''
         \<or> includesStr (testCode request) ''page.fill''"
    and "\<not> includesStr (testCode request) ''expect''"
  shows "\<exists>a. MockAIService_analyzeTest svc rnd request
              = \<lparr>a_success = True, a_analysis = Some a, a_error = None\<rparr>
           \<and> improvements a =
               (if includesStr (testCode request) ''await page.click''
                then [''Add assertions after click actions''] else [])
               @ (if includesStr (testCode request) ''page.fill''
                  then [''Verify form submissions with assertions''] else [])
           \<and> improvements a \<noteq> []
           \<and> quality a = ''Good'' \<and> quality a \<noteq> ''Excellent'' \<and> coverage a = ''Medium''"
proof -
  let ?click = "includesStr (testCode request) ''await page.click''"
  let ?fill = "includesStr (testCode request) ''page.fill''"
  have "analyzeTestCode (testCode request)
      = \<lparr>quality = ''Good'', coverage = ''Medium'',
         suggestions = [''Add proper Playwright imports'',
           ''Add assertions to verify expected behavior''],
         improvements = (if ?click then [''Add assertions after click actions''] else [])
           @ (if ?fill then [''Verify form submissions with assertions''] else [])\<rparr>"
    using assms(2-4) no_expect_call [OF assms(4)] no_expect_import [OF assms(4)]
    by (cases ?click; cases ?fill) (simp_all add: analyzeTestCode_def)
  with assms(1,3) show ?thesis
    by (auto simp add: analyzeTest_no_errors)
qed

theorem C6_missing_assertions_witness:
  "\<not> enableRandomErrors (newMockAIService emptyMockConfig)
   \<and> includesStr (testCode \<lparr>testCode = sampleTestBody, testName = None\<rparr>) ''page.goto''
   \<and> includesStr (testCode \<lparr>testCode = sampleTestBody, testName = None\<rparr>) ''await page.click''
   \<and> \<not> includesStr (testCode \<lparr>testCode = sampleTestBody, testName = None\<rparr>) ''expect''
   \<and> (\<exists>a. MockAIService_analyzeTest (newMockAIService emptyMockConfig) 0
              \<lparr>testCode = sampleTestBody, testName = None\<rparr>
            = \<lparr>a_success = True, a_analysis = Some a, a_error = None\<rparr>
          \<and> improvements a = [''Add assertions after click actions'']
          \<and> quality a = ''Good'')"
proof -
  have goto: "includesStr (testCode \<lparr>testCode = sampleTestBody, testName = None\<rparr>) ''page.goto''"
    by (simp add: sampleTestBody_def)
  have click:
    "includesStr (testCode \<lparr>testCode = sampleTestBody, testName = None\<rparr>) ''await page.click''"
    by (simp add: sampleTestBody_def)
  have fill: "\<not> includesStr (testCode \<lparr>testCode = sampleTestBody, testName = None\<rparr>) ''page.fill''"
    by (simp add: sampleTestBody_def)
  have word: "\<not> includesStr (testCode \<lparr>testCode = sampleTestBody, testName = None\<rparr>) ''expect''"
    by (simp add: sampleTestBody_def)
  from C6_missing_assertions [OF default_simulator_no_errors goto disjI1 [OF click] word, of 0]
    click fill
  have "\<exists>a. MockAIService_analyzeTest (newMockAIService emptyMockConfig) 0
              \<lparr>testCode = sampleTestBody, testName = None\<rparr>
            = \<lparr>a_success = True, a_analysis = Some a, a_error = None\<rparr>
          \<and> improvements a = [''Add assertions after click actions'']
          \<and> quality a = ''Good''"
    by auto
  with default_simulator_no_errors goto click word show ?thesis by blast
qed

subsection \<open>Search by the simulator\<close>

lemma searchLoop_eq:
  "searchLoop clock query bound i acc = acc @ map (mockResult clock query) [i ..< nat bound]"
proof (induction clock query bound i acc rule: searchLoop.induct)
  case (1 clock query bound i mockResults)
  show ?case
  proof (cases "int i < bound")
    case True
    then have "i < nat bound" by simp
    then have "[i ..< nat bound] = i # [Suc i ..< nat bound]" by (rule upt_conv_Cons)
    with True "1.IH" show ?thesis by (subst searchLoop.simps) simp
  next
    case False
    then have "nat bound \<le> i" by simp
    with False show ?thesis by (subst searchLoop.simps) simp
  qed
qed

lemma searchTests_no_errors:
  "\<not> enableRandomErrors svc \<Longrightarrow>
     MockAIService_searchTests svc rnd clock query numResults
       = map (mockResult clock query) [0 ..< nat (min (nullish numResults 10) 5)]"
  by (simp add: MockAIService_searchTests_def shouldSimulateError_def searchLoop_eq)

lemma mockScores_values:
  "mockScores = [8106479329266893 / 9007199254740992, 3602879701896397 / 4503599627370496,
      3152519739159347 / 4503599627370496, 5404319552844595 / 9007199254740992, 1 / 2]"
  by (simp add: mockScores_def fl64_eval)

lemma score_mockResult:
  assumes "i < 5"
  shows "score (mockResult clock query i) = fl64 (9 / 10 - of_nat i / 10)"
    and "score (mockResult clock query i) = mockScores ! i"
proof -
  from assms consider "i = 0" | "i = 1" | "i = 2" | "i = 3" | "i = 4" by linarith
  then show "score (mockResult clock query i) = fl64 (9 / 10 - of_nat i / 10)"
    by cases (simp_all add: mockResult_def fl64_eval)
  from assms consider "i = 0" | "i = 1" | "i = 2" | "i = 3" | "i = 4" by linarith
  then show "score (mockResult clock query i) = mockScores ! i"
    by cases (simp_all add: mockResult_def mockScores_values fl64_eval)
qed

lemma scores_upto:
  assumes "k \<le> 5"
  shows "map (\<lambda>i. score (mockResult clock query i)) [0 ..< k] = take k mockScores"
proof (rule nth_equalityI)
  show "length (map (\<lambda>i. score (mockResult clock query i)) [0 ..< k]) = length (take k mockScores)"
    using assms by (simp add: mockScores_def)
next
  fix i assume "i < length (map (\<lambda>i. score (mockResult clock query i)) [0 ..< k])"
  then have "i < k" by simp
  with assms have "i < 5" by simp
  with \<open>i < k\<close> show "map (\<lambda>i. score (mockResult clock query i)) [0 ..< k] ! i = take k mockScores ! i"
    by (simp add: score_mockResult(2))
qed

lemma mockScores_decreasing: "sorted_wrt (>) mockScores"
  by (simp add: mockScores_values)

lemma mockScores_steps:
  assumes "Suc i < 5"
  shows "\<bar>mockScores ! i - mockScores ! Suc i - 1 / 10\<bar> < 1 / 2 ^ 53"
proof -
  from assms consider "i = 0" | "i = 1" | "i = 2" | "i = 3" by linarith
  then show ?thesis
    by cases (simp_all add: mockScores_values)
qed

lemma content_mockResult: "sublist query (content (mockResult clock query i))"
proof -
  have "content (mockResult clock query i)
      = ''// Mock test content for: '' @ query
        @ ''\<newline>// This is a generated search result for development purposes''"
    by (simp add: mockResult_def)
  then show ?thesis by (simp only: sublist_appendI)
qed

text \<open>
  C7. With error injection disabled and a requested count \<open>n \<ge> 0\<close>, the simulator's
  search returns exactly \<open>min n 5\<close> entries; their scores are the first of the binary64
  values 0.9, 0.8, 0.7, 0.6, 0.5, the one at position \<open>i\<close> being the binary64 value
  nearest to \<open>0.9 - 0.1 i\<close>, so strictly decreasing, each by 0.1 up to the rounding
  (less than \<open>2\<^sup>-\<^sup>5\<^sup>3\<close>); the content of each entry contains the query; and for
  \<open>n = 3\<close> the scores are 0.9, 0.8, 0.7.
\<close>

theorem C7_search:
  assumes "\<not> enableRandomErrors svc" and "0 \<le> n"
  shows "\<exists>rs. MockAIService_searchTests svc rnd clock query (Some n) = rs
           \<and> int (length rs) = min n 5
           \<and> map score rs = take (length rs) (map fl64 [9 / 10, 8 / 10, 7 / 10, 6 / 10, 5 / 10])
           \<and> (\<forall>i < length rs. score (rs ! i) = fl64 (9 / 10 - of_nat i / 10))
           \<and> sorted_wrt (>) (map score rs)
           \<and> (\<forall>i. Suc i < length rs
                \<longrightarrow> \<bar>score (rs ! i) - score (rs ! Suc i) - 1 / 10\<bar> < 1 / 2 ^ 53)
           \<and> (\<forall>r \<in> set rs. sublist query (content r))
           \<and> (n = 3 \<longrightarrow> map score rs = [fl64 (9 / 10), fl64 (8 / 10), fl64 (7 / 10)])"
proof -
  let ?k = "nat (min n 5)"
  let ?rs = "map (mockResult clock query) [0 ..< ?k]"
  have k: "?k \<le> 5" by simp
  have rs: "MockAIService_searchTests svc rnd clock query (Some n) = ?rs"
    using assms(1) by (simp add: searchTests_no_errors nullish_def)
  have len: "int (length ?rs) = min n 5" using assms(2) by simp
  have scores: "map score ?rs = take (length ?rs) mockScores"
    using scores_upto [OF k] by (simp add: comp_def)
  have each: "\<forall>i < length ?rs. score (?rs ! i) = fl64 (9 / 10 - of_nat i / 10)"
    using k by (simp add: score_mockResult(1))
  have decr: "sorted_wrt (>) (map score ?rs)"
    unfolding scores using mockScores_decreasing by (rule sorted_wrt_take)
  have steps: "\<forall>i. Suc i < length ?rs
      \<longrightarrow> \<bar>score (?rs ! i) - score (?rs ! Suc i) - 1 / 10\<bar> < 1 / 2 ^ 53"
  proof (intro allI impI)
    fix i assume i: "Suc i < length ?rs"
    with k have "Suc i < 5" by simp
    then have "\<bar>mockScores ! i - mockScores ! Suc i - 1 / 10\<bar> < 1 / 2 ^ 53"
      by (rule mockScores_steps)
    moreover from i have "?rs ! i = mockResult clock query i"
      and "?rs ! Suc i = mockResult clock query (Suc i)" by simp_all
    moreover from \<open>Suc i < 5\<close> have "score (mockResult clock query i) = mockScores ! i"
      and "score (mockResult clock query (Suc i)) = mockScores ! Suc i"
      by (simp_all only: score_mockResult(2) Suc_lessD)
    ultimately show "\<bar>score (?rs ! i) - score (?rs ! Suc i) - 1 / 10\<bar> < 1 / 2 ^ 53"
      by (simp only:)
  qed
  have cont: "\<forall>r \<in> set ?rs. sublist query (content r)"
    by (simp add: content_mockResult)
  have three: "n = 3 \<longrightarrow> map score ?rs = [fl64 (9 / 10), fl64 (8 / 10), fl64 (7 / 10)]"
  proof
    assume n: "n = 3"
    have "take (length ?rs) mockScores = [fl64 (9 / 10), fl64 (8 / 10), fl64 (7 / 10)]"
      unfolding n by (simp add: mockScores_def)
    with scores show "map score ?rs = [fl64 (9 / 10), fl64 (8 / 10), fl64 (7 / 10)]"
      by (rule trans)
  qed
  show ?thesis
  proof (intro exI conjI)
    show "MockAIService_searchTests svc rnd clock query (Some n) = ?rs" by (rule rs)
    show "int (length ?rs) = min n 5" by (rule len)
    show "map score ?rs = take (length ?rs) (map fl64 [9 / 10, 8 / 10, 7 / 10, 6 / 10, 5 / 10])"
      by (rule scores [unfolded mockScores_def])
    show "\<forall>i < length ?rs. score (?rs ! i) = fl64 (9 / 10 - of_nat i / 10)" by (rule each)
    show "sorted_wrt (>) (map score ?rs)" by (rule decr)
    show "\<forall>i. Suc i < length ?rs
        \<longrightarrow> \<bar>score (?rs ! i) - score (?rs ! Suc i) - 1 / 10\<bar> < 1 / 2 ^ 53"
      by (rule steps)
    show "\<forall>r \<in> set ?rs. sublist query (content r)" by (rule cont)
    show "n = 3 \<longrightarrow> map score ?rs = [fl64 (9 / 10), fl64 (8 / 10), fl64 (7 / 10)]"
      by (rule three)
  qed
qed

theorem C7_search_witness:
  "\<not> enableRandomErrors (newMockAIService emptyMockConfig) \<and> (0 :: int) \<le> 3
   \<and> length (MockAIService_searchTests (newMockAIService emptyMockConfig) 0 sampleClock
        ''login'' (Some 3)) = 3
   \<and> map score (MockAIService_searchTests (newMockAIService emptyMockConfig) 0 sampleClock
        ''login'' (Some 3)) = [fl64 (9 / 10), fl64 (8 / 10), fl64 (7 / 10)]"
proof -
  have three: "(0 :: int) \<le> 3" by simp
  from C7_search [OF default_simulator_no_errors three, of 0 sampleClock "''login''"]
  have "int (length (MockAIService_searchTests (newMockAIService emptyMockConfig) 0 sampleClock
        ''login'' (Some 3))) = min 3 5"
    and "map score (MockAIService_searchTests (newMockAIService emptyMockConfig) 0 sampleClock
        ''login'' (Some 3)) = [fl64 (9 / 10), fl64 (8 / 10), fl64 (7 / 10)]"
    by simp_all
  with default_simulator_no_errors show ?thesis by simp
qed

subsection \<open>Failover\<close>

lemmas gateway_defs = EnhancedAIService_checkHealth_def EnhancedAIService_generateTest_def
  EnhancedAIService_analyzeTest_def EnhancedAIService_modifyTest_def
  EnhancedAIService_searchTests_def EnhancedAIService_saveTest_def awaitResult_def

lemmas client_defs = AIServiceIntegration_checkHealth_def AIServiceIntegration_generateTest_def
  AIServiceIntegration_analyzeTest_def AIServiceIntegration_modifyTest_def
  AIServiceIntegration_searchTests_def AIServiceIntegration_saveTest_def
  awaitData_def readBody_def

lemmas default_instance_eval = enhancedAIService_def newEnhancedAIService_def
  newMockAIService_def nullish_def orBool_def orNumber_def

text \<open>What the simulator can answer: a success, or a failure it declares itself.\<close>

lemma mock_generateTest_outcome:
  "success (MockAIService_generateTest svc rnd request)
   \<or> error (MockAIService_generateTest svc rnd request)
       = Some ''Mock AI service temporarily unavailable''"
  by (simp add: MockAIService_generateTest_def)

lemma mock_analyzeTest_outcome:
  "a_success (MockAIService_analyzeTest svc rnd request)
   \<or> a_error (MockAIService_analyzeTest svc rnd request)
       = Some ''Mock analysis service temporarily unavailable''"
  by (simp add: MockAIService_analyzeTest_def)

lemma mock_modifyTest_outcome:
  "success (MockAIService_modifyTest svc rnd filePath modificationRequest)
   \<or> error (MockAIService_modifyTest svc rnd filePath modificationRequest)
       = Some ''Mock modification service temporarily unavailable''"
  by (simp add: MockAIService_modifyTest_def)

lemma mock_saveTest_outcome:
  "s_success (MockAIService_saveTest svc rnd env codeArg testNameArg outputDirArg)
   \<or> s_error (MockAIService_saveTest svc rnd env codeArg testNameArg outputDirArg)
       = Some ''Mock save service temporarily unavailable''
   \<or> (\<exists>shown. s_error (MockAIService_saveTest svc rnd env codeArg testNameArg outputDirArg)
         = Some (''Failed to save test: '' @ shown))"
  by (simp add: MockAIService_saveTest_def saveFailed_def Let_def split: attempt.split)

text \<open>
  C3. With auto-fallback enabled and the real service unreachable (its HTTP call is
  rejected), each of the six operations returns, and never ends in the exception: what it
  returns is the simulator's answer to the same request, so a success or a failure the
  simulator declares, and the gateway is in simulated mode afterwards.
\<close>

theorem C3_failover:
  assumes "autoFallback g"
  shows "(\<exists>r out g'. EnhancedAIService_generateTest g (Rejected e) rnd request = (Inr r, out, g')
            \<and> r = MockAIService_generateTest (mockService g) rnd request \<and> useMock g'
            \<and> (success r \<or> error r = Some ''Mock AI service temporarily unavailable''))
    \<and> (\<exists>r out g'. EnhancedAIService_analyzeTest g (Rejected e) rnd arequest = (Inr r, out, g')
            \<and> r = MockAIService_analyzeTest (mockService g) rnd (mockRequest arequest)
            \<and> useMock g'
            \<and> (a_success r \<or> a_error r = Some ''Mock analysis service temporarily unavailable''))
    \<and> (\<exists>r out g'. EnhancedAIService_modifyTest g (Rejected e) rnd filePath modificationRequest
              = (Inr r, out, g')
            \<and> r = MockAIService_modifyTest (mockService g) rnd filePath modificationRequest
            \<and> useMock g'
            \<and> (success r
                \<or> error r = Some ''Mock modification service temporarily unavailable''))
    \<and> (\<exists>r out g'. EnhancedAIService_searchTests g (Rejected e) rnd clock query numResults
              = (Inr r, out, g')
            \<and> r = MockAIService_searchTests (mockService g) rnd clock query
                    (Some (nullish numResults 10))
            \<and> useMock g')
    \<and> (\<exists>r out g'. EnhancedAIService_saveTest g (Rejected e) rnd env codeArg testNameArg
                outputDirArg = (Inr r, out, g')
            \<and> r = MockAIService_saveTest (mockService g) rnd env codeArg testNameArg
                    (Some (nullish outputDirArg ''tests''))
            \<and> useMock g'
            \<and> (s_success r \<or> s_error r = Some ''Mock save service temporarily unavailable''
                \<or> (\<exists>shown. s_error r = Some (''Failed to save test: '' @ shown))))
    \<and> (\<exists>r out g'. EnhancedAIService_checkHealth g (Rejected e) rnd = (Inr r, out, g')
            \<and> r = MockAIService_checkHealth (mockService g) rnd \<and> useMock g')"
proof (intro conjI)
  show "\<exists>r out g'. EnhancedAIService_generateTest g (Rejected e) rnd request = (Inr r, out, g')
            \<and> r = MockAIService_generateTest (mockService g) rnd request \<and> useMock g'
            \<and> (success r \<or> error r = Some ''Mock AI service temporarily unavailable'')"
    using assms mock_generateTest_outcome [of "mockService g" rnd request]
    by (simp add: gateway_defs client_defs generationFailed_def)
  show "\<exists>r out g'. EnhancedAIService_analyzeTest g (Rejected e) rnd arequest = (Inr r, out, g')
            \<and> r = MockAIService_analyzeTest (mockService g) rnd (mockRequest arequest)
            \<and> useMock g'
            \<and> (a_success r \<or> a_error r = Some ''Mock analysis service temporarily unavailable'')"
    using assms mock_analyzeTest_outcome [of "mockService g" rnd "mockRequest arequest"]
    by (simp add: gateway_defs client_defs)
  show "\<exists>r out g'. EnhancedAIService_modifyTest g (Rejected e) rnd filePath modificationRequest
              = (Inr r, out, g')
            \<and> r = MockAIService_modifyTest (mockService g) rnd filePath modificationRequest
            \<and> useMock g'
            \<and> (success r
                \<or> error r = Some ''Mock modification service temporarily unavailable'')"
    using assms mock_modifyTest_outcome [of "mockService g" rnd filePath modificationRequest]
    by (simp add: gateway_defs client_defs generationFailed_def)
  show "\<exists>r out g'. EnhancedAIService_searchTests g (Rejected e) rnd clock query numResults
              = (Inr r, out, g')
            \<and> r = MockAIService_searchTests (mockService g) rnd clock query
                    (Some (nullish numResults 10))
            \<and> useMock g'"
    using assms by (simp add: gateway_defs client_defs)
  show "\<exists>r out g'. EnhancedAIService_saveTest g (Rejected e) rnd env codeArg testNameArg
                outputDirArg = (Inr r, out, g')
            \<and> r = MockAIService_saveTest (mockService g) rnd env codeArg testNameArg
                    (Some (nullish outputDirArg ''tests''))
            \<and> useMock g'
            \<and> (s_success r \<or> s_error r = Some ''Mock save service temporarily unavailable''
                \<or> (\<exists>shown. s_error r = Some (''Failed to save test: '' @ shown)))"
    using assms mock_saveTest_outcome [of "mockService g" rnd env codeArg testNameArg
        "Some (nullish outputDirArg ''tests'')"]
    by (simp add: gateway_defs client_defs)
  show "\<exists>r out g'. EnhancedAIService_checkHealth g (Rejected e) rnd = (Inr r, out, g')
            \<and> r = MockAIService_checkHealth (mockService g) rnd \<and> useMock g'"
    using assms by (simp add: gateway_defs client_defs)
qed

lemma default_instance_autoFallback: "autoFallback (enhancedAIService b)"
  by (simp add: default_instance_eval)

text \<open>
  The default instance in real mode, asked to generate a test while the service refuses
  the connection, answers with the simulator's login template and a valid validation.
\<close>

theorem C3_failover_witness:
  "autoFallback (enhancedAIService False)
   \<and> (\<exists>r out g'. EnhancedAIService_generateTest (enhancedAIService False) (Rejected refused) 0
          sampleRequest = (Inr r, out, g')
        \<and> useMock g' \<and> success r
        \<and> code r = Some (template_login (requirements sampleRequest))
        \<and> map_option valid (validation r) = Some True)"
proof -
  from C3_failover [OF default_instance_autoFallback [of False], of refused 0 sampleRequest]
  obtain r out g' where
    ret: "EnhancedAIService_generateTest (enhancedAIService False) (Rejected refused) 0
            sampleRequest = (Inr r, out, g')"
    and r: "r = MockAIService_generateTest (mockService (enhancedAIService False)) 0 sampleRequest"
    and g': "useMock g'"
    by blast
  have low: "selectTemplate (toLowerCase (requirements sampleRequest)) = T_login"
    unfolding sample_lowered by (simp add: selectTemplate_def)
  from r have "success r \<and> code r = Some (template_login (requirements sampleRequest))
      \<and> map_option valid (validation r) = Some True"
    by (simp add: generateTest_no_errors default_instance_no_errors generatePlaywrightTest_def
        low testTemplates_def)
  with ret g' default_instance_autoFallback [of False] show ?thesis by blast
qed

text \<open>
  C4. With auto-fallback disabled and the gateway in real mode, a result of the real
  service's client with \<open>success = false\<close> is returned as it is by \<open>generateTest\<close>,
  \<open>analyzeTest\<close>, \<open>modifyTest\<close> and \<open>saveTest\<close>, and the gateway is unchanged: it stays in
  real mode. In particular a response of the real service that declares \<open>success = false\<close>
  reaches the caller as the service sent it (for \<open>saveTest\<close>, as the client has read it:
  with \<open>file_path\<close> under the name \<open>filePath\<close>).
\<close>

theorem C4_failure_propagates:
  assumes "\<not> useMock g" and "\<not> autoFallback g"
  shows "(AIServiceIntegration_generateTest gh request = (Inr (Body gr), gout) \<and> \<not> success gr
            \<longrightarrow> EnhancedAIService_generateTest g gh rnd request = (Inr gr, gout, g))
    \<and> (AIServiceIntegration_analyzeTest ah arequest = (Inr (Body ar), aout) \<and> \<not> a_success ar
            \<longrightarrow> EnhancedAIService_analyzeTest g ah rnd arequest = (Inr ar, aout, g))
    \<and> (AIServiceIntegration_modifyTest mh filePath modificationRequest = (Inr (Body mr), mout)
          \<and> \<not> success mr
            \<longrightarrow> EnhancedAIService_modifyTest g mh rnd filePath modificationRequest
                  = (Inr mr, mout, g))
    \<and> (AIServiceIntegration_saveTest sh codeArg testNameArg (Some (nullish outputDirArg ''tests''))
            = (Inr sr, sout) \<and> \<not> s_success sr
            \<longrightarrow> EnhancedAIService_saveTest g sh rnd env codeArg testNameArg outputDirArg
                  = (Inr sr, sout, g))
    \<and> (\<not> success gdata
            \<longrightarrow> EnhancedAIService_generateTest g (Resolved (Body gdata)) rnd request
                  = (Inr gdata, [], g))
    \<and> (\<not> a_success adata
            \<longrightarrow> EnhancedAIService_analyzeTest g (Resolved (Body adata)) rnd arequest
                  = (Inr adata, [], g))
    \<and> (\<not> success mdata
            \<longrightarrow> EnhancedAIService_modifyTest g (Resolved (Body mdata)) rnd filePath
                    modificationRequest
                  = (Inr mdata, [], g))
    \<and> (\<not> d_success sdata
            \<longrightarrow> EnhancedAIService_saveTest g (Resolved (Body sdata)) rnd env codeArg
                    testNameArg
                    outputDirArg
                  = (Inr \<lparr>s_success = False, s_filePath = d_file_path sdata,
                          s_file_path = None, s_message = None, s_error = d_error sdata\<rparr>,
                     [], g))"
  using assms by (simp add: gateway_defs client_defs)

lemma strictGateway_mode: "\<not> useMock strictGateway"
  and strictGateway_fallback: "\<not> autoFallback strictGateway"
  by (simp_all add: strictGateway_def newEnhancedAIService_def nullish_def)

text \<open>
  A gateway configured without auto-fallback hands on the failure the real service
  declares in its response.
\<close>

theorem C4_failure_propagates_witness:
  "\<not> useMock strictGateway \<and> \<not> autoFallback strictGateway
   \<and> AIServiceIntegration_generateTest (Resolved (Body declaredFailure)) sampleRequest
       = (Inr (Body declaredFailure), [])
   \<and> \<not> success declaredFailure
   \<and> EnhancedAIService_generateTest strictGateway (Resolved (Body declaredFailure)) 0
        sampleRequest
       = (Inr declaredFailure, [], strictGateway)"
proof -
  have client: "AIServiceIntegration_generateTest (Resolved (Body declaredFailure)) sampleRequest
      = (Inr (Body declaredFailure), [])"
    by (simp add: AIServiceIntegration_generateTest_def)
  have failed: "\<not> success declaredFailure"
    by (simp add: declaredFailure_def)
  from C4_failure_propagates [OF strictGateway_mode strictGateway_fallback,
      where gh = "Resolved (Body declaredFailure)" and request = sampleRequest
        and gr = declaredFailure and gout = "[]" and rnd = 0]
    client failed strictGateway_mode strictGateway_fallback
  show ?thesis by blast
qed

text \<open>
  C5. In real mode with auto-fallback enabled, when the real service's client returns an
  empty list for a search, the gateway switches to simulated mode and returns what the
  simulator finds for the same query and the same requested count.
\<close>

theorem C5_empty_search_fallback:
  assumes "\<not> useMock g" and "autoFallback g"
    and "AIServiceIntegration_searchTests http query (Some (nullish numResults 10)) = (Inr [], out)"
  shows "EnhancedAIService_searchTests g http rnd clock query numResults
           = (Inr (MockAIService_searchTests (mockService g) rnd clock query
                    (Some (nullish numResults 10))),
              out @ [Log ''Real AI service returned no results, falling back to mock service''],
              g\<lparr>useMock := True\<rparr>)"
  using assms by (simp add: EnhancedAIService_searchTests_def)

lemma default_instance_mode: "useMock (enhancedAIService b) = b"
  by (simp add: default_instance_eval)

theorem C5_empty_search_fallback_witness:
  "\<not> useMock (enhancedAIService False) \<and> autoFallback (enhancedAIService False)
   \<and> AIServiceIntegration_searchTests (Resolved (Body \<lparr>results = Some []\<rparr>)) ''login''
        (Some (nullish (Some 3) 10)) = (Inr [], [])
   \<and> EnhancedAIService_searchTests (enhancedAIService False) (Resolved (Body \<lparr>results = Some []\<rparr>)) 0
        (\<lambda>i. ''2025-06-30T03:40:28.123Z'') ''login'' (Some 3)
       = (Inr (MockAIService_searchTests (mockService (enhancedAIService False)) 0
                (\<lambda>i. ''2025-06-30T03:40:28.123Z'') ''login'' (Some (nullish (Some 3) 10))),
          [] @ [Log ''Real AI service returned no results, falling back to mock service''],
          (enhancedAIService False)\<lparr>useMock := True\<rparr>)"
proof -
  have real: "\<not> useMock (enhancedAIService False)"
    by (simp add: default_instance_mode)
  have empty: "AIServiceIntegration_searchTests (Resolved (Body \<lparr>results = Some []\<rparr>)) ''login''
        (Some (nullish (Some 3) 10)) = (Inr [], [])"
    by (simp add: client_defs nullish_def)
  from C5_empty_search_fallback [OF real default_instance_autoFallback [of False] empty]
    real default_instance_autoFallback [of False] empty
  show ?thesis by blast
qed

subsection \<open>The client of the real service\<close>




subsection \<open>Construction of the simulator\<close>

text \<open>
  C10. Constructing the simulator with a response delay of 0 gives a delay of 500, and with
  an error rate of 0 gives the rate 0.1, because the defaults are applied with \<open>||\<close>; no
  configuration makes the constructed delay or the constructed error rate zero.
\<close>

theorem C10_falsy_config_ignored:
  "responseDelay (newMockAIService (config\<lparr>cfg_responseDelay := Some 0\<rparr>)) = 500
   \<and> errorRate (newMockAIService (config\<lparr>cfg_errorRate := Some 0\<rparr>)) = fl64 (1 / 10)
   \<and> responseDelay (newMockAIService config) \<noteq> 0
   \<and> errorRate (newMockAIService config) \<noteq> 0"
  by (simp add: newMockAIService_def orNumber_def fl64_tenth split: option.split)

end
